theory Spec2Isabelle
  imports Complex_Main "HOL-Library.Word"
begin

unbundle bit_operations_syntax

section \<open>Python string primitives used by the ingestion code\<close>

text \<open>
  Python strings are modelled as \<open>string\<close>; the characters are those of the Latin-1
  range, which covers everything a RADIUS detail file and the checkpoint file contain.
\<close>

datatype py_error = ValueError | DatabaseError | OSError

text \<open>\<open>str.isspace\<close> for one character (the white space of the Latin-1 range).\<close>

definition py_isspace :: "char \<Rightarrow> bool" where
  "py_isspace c =
     (let n = (of_char c :: nat)
      in (9 \<le> n \<and> n \<le> 13) \<or> (28 \<le> n \<and> n \<le> 32) \<or> n = 133 \<or> n = 160)"

text \<open>\<open>s.strip()\<close>: white space removed at both ends.\<close>

definition py_strip :: "string \<Rightarrow> string" where
  "py_strip s = rev (dropWhile py_isspace (rev (dropWhile py_isspace s)))"

text \<open>\<open>s.split(sep)\<close> for a separator of one character: every field, empty ones too.\<close>

fun py_split :: "char \<Rightarrow> string \<Rightarrow> string list" where
  "py_split sep [] = [[]]"
| "py_split sep (c # cs) =
     (if c = sep then [] # py_split sep cs
      else (case py_split sep cs of
              [] \<Rightarrow> [[c]]
            | f # fs \<Rightarrow> (c # f) # fs))"

text \<open>\<open>s.startswith(p)\<close> and the slice \<open>s[-n:]\<close> (for \<open>n > 0\<close>).\<close>

definition py_startswith :: "string \<Rightarrow> string \<Rightarrow> bool" where
  "py_startswith s p = (take (length p) s = p)"

definition py_last :: "nat \<Rightarrow> string \<Rightarrow> string" where
  "py_last n s = drop (length s - n) s"

text \<open>
  \<open>s.replace(ab, "")\<close> for a pattern \<open>ab\<close> of two characters: every occurrence, found
  from left to right without overlap, is removed.
\<close>

fun py_remove2 :: "char \<Rightarrow> char \<Rightarrow> string \<Rightarrow> string" where
  "py_remove2 a b (x # y # zs) =
     (if x = a \<and> y = b then py_remove2 a b zs else x # py_remove2 a b (y # zs))"
| "py_remove2 a b xs = xs"

subsection \<open>\<open>int(s, base)\<close>\<close>

text \<open>
  The value of a digit character: \<open>0-9\<close>, then \<open>a-z\<close> and \<open>A-Z\<close> as 10 to 35; 37 marks a
  character that is no digit in any base.
\<close>

definition digit_value :: "char \<Rightarrow> nat" where
  "digit_value c =
     (let n = (of_char c :: nat)
      in if 48 \<le> n \<and> n \<le> 57 then n - 48
         else if 97 \<le> n \<and> n \<le> 122 then n - 87
         else if 65 \<le> n \<and> n \<le> 90 then n - 55
         else 37)"

text \<open>
  The digit scan: digits of the base, with single underscores between them. The flag says
  whether the previous character was an underscore; the result is the value, the number of
  digits read and the unread rest, or \<open>None\<close> for a doubled or trailing underscore.
\<close>

fun scan_digits :: "nat \<Rightarrow> string \<Rightarrow> bool \<Rightarrow> int \<Rightarrow> nat \<Rightarrow> (int \<times> nat \<times> string) option" where
  "scan_digits base [] us acc n = (if us then None else Some (acc, n, []))"
| "scan_digits base (c # cs) us acc n =
     (if c = CHR ''_'' then (if us then None else scan_digits base cs True acc n)
      else if digit_value c < base
        then scan_digits base cs False (acc * int base + int (digit_value c)) (Suc n)
      else if us then None else Some (acc, n, c # cs))"

text \<open>The default of \<open>sys.int_max_str_digits\<close>, which bounds decimal conversions.\<close>

definition int_max_str_digits :: nat where
  "int_max_str_digits = 4300"

text \<open>
  \<open>int(s, base)\<close> for base 10 and base 16: white space, an optional sign, for base 16 an
  optional \<open>0x\<close> prefix (one underscore may follow it), the digits, white space.
  \<open>None\<close> is Python's \<open>ValueError\<close>.
\<close>

definition py_int :: "nat \<Rightarrow> string \<Rightarrow> int option" where
  "py_int base s =
     (let s1 = dropWhile py_isspace s;
          neg = py_startswith s1 ''-'';
          s2 = (if py_startswith s1 ''+'' \<or> neg then drop 1 s1 else s1);
          s3 = (if base = 16 \<and> (py_startswith s2 ''0x'' \<or> py_startswith s2 ''0X'')
                then (let t = drop 2 s2 in if py_startswith t ''_'' then drop 1 t else t)
                else s2)
      in if py_startswith s3 ''_'' then None
         else (case scan_digits base s3 False 0 0 of
                 None \<Rightarrow> None
               | Some (v, n, rest) \<Rightarrow>
                   if n = 0 then None
                   else if base = 10 \<and> int_max_str_digits < n then None
                   else if dropWhile py_isspace rest \<noteq> [] then None
                   else Some (if neg then - v else v)))"

section \<open>Location decoder\<close>

text \<open>
  \<open>decode_enodeb_cellid\<close> of \<open>backfill_radius_history.py\<close> (the copies in
  \<open>trace_incremental.py\<close> and \<open>parse_radius_logs_debug.py\<close> are the same text). The
  \<open>ValueError\<close> of \<open>int\<close> is not caught and reaches the caller.
\<close>

definition decode_enodeb_cellid :: "string \<Rightarrow> py_error + (int \<times> int)" where
  "decode_enodeb_cellid uli_hex =
     (let u = (if py_startswith uli_hex ''0x'' then drop 2 uli_hex else uli_hex);
          eci_hex = py_last 8 u
      in case py_int 16 eci_hex of
           None \<Rightarrow> Inl ValueError
         | Some eci \<Rightarrow> Inr (drop_bit 8 eci, eci AND 255))"

text \<open>\<open>decode_eci\<close> of \<open>radius_parser.py\<close>: every exception becomes \<open>None\<close>.\<close>

record eci_info =
  eci_enodeb_id :: int
  eci_cell_id :: int
  eci :: int

definition decode_eci :: "string \<Rightarrow> eci_info option" where
  "decode_eci location_hex =
     (let hex_clean = py_remove2 CHR ''0'' CHR ''X'' (py_remove2 CHR ''0'' CHR ''x'' location_hex)
      in if length hex_clean < 8 then None
         else (case py_int 16 (py_last 8 hex_clean) of
                 None \<Rightarrow> None
               | Some e \<Rightarrow>
                   Some \<lparr>eci_enodeb_id = (drop_bit 8 e) AND 1048575, eci_cell_id = e AND 255, eci = e\<rparr>))"

section \<open>Progress tracker\<close>

text \<open>
  The checkpoint file is a list of lines, or \<open>None\<close> when the file does not exist.
  \<open>save\<close> appends one line \<open>filename|position\<close>; a failure to write is logged and
  leaves the file as it was.
\<close>

type_synonym progress_file = "string list option"

text \<open>The decimal text of an integer, as an f-string writes it.\<close>

fun nat_digits :: "nat \<Rightarrow> string" where
  "nat_digits n =
     (if n < 10 then [''0123456789'' ! n]
      else nat_digits (n div 10) @ [''0123456789'' ! (n mod 10)])"

declare nat_digits.simps [simp del]

definition py_str_int :: "int \<Rightarrow> string" where
  "py_str_int i = (if i < 0 then CHR ''-'' # nat_digits (nat (- i)) else nat_digits (nat i))"

definition save :: "progress_file \<Rightarrow> string \<Rightarrow> int \<Rightarrow> progress_file" where
  "save pf filename position =
     Some ((case pf of None \<Rightarrow> [] | Some ls \<Rightarrow> ls)
           @ [filename @ ''|'' @ py_str_int position @ [CHR 0x0A]])"

text \<open>
  The dictionary comprehension of \<open>load\<close>: a line with two fields stores its position,
  any other line is passed over, and \<open>None\<close> is the \<open>ValueError\<close> of \<open>int\<close>, which
  leaves the comprehension.
\<close>

fun load_lines :: "string list \<Rightarrow> (string \<rightharpoonup> int) \<Rightarrow> (string \<rightharpoonup> int) option" where
  "load_lines [] m = Some m"
| "load_lines (l # ls) m =
     (case py_split CHR ''|'' (py_strip l) of
        [k, p] \<Rightarrow> (case py_int 10 p of
                     None \<Rightarrow> None
                   | Some n \<Rightarrow> load_lines ls (m(k \<mapsto> n)))
      | _ \<Rightarrow> load_lines ls m)"

definition load :: "progress_file \<Rightarrow> (string \<rightharpoonup> int)" where
  "load pf =
     (case pf of
        None \<Rightarrow> Map.empty
      | Some ls \<Rightarrow> (case load_lines ls Map.empty of None \<Rightarrow> Map.empty | Some m \<Rightarrow> m))"

text \<open>\<open>clear\<close> removes the checkpoint file.\<close>

definition clear :: "progress_file \<Rightarrow> progress_file" where
  "clear pf = None"

section \<open>The persisted tables\<close>

text \<open>
  The three tables of \<open>create_tables_if_not_exists\<close>. The type \<open>'t\<close> is the type of the
  values the \<open>timestamp\<close> columns hold. Columns that some ingestion path leaves \<open>NULL\<close>
  are options. \<open>radius_matches\<close> is a list of rows in insertion order, \<open>latest_traces\<close>
  and \<open>backfill_audit\<close> are maps from their primary key.
\<close>

record 't history_row =
  h_msisdn :: string
  h_imsi :: string
  h_imei :: "string option"
  h_enodeb_id :: string
  h_cell_id :: string
  h_tower_name :: string
  h_lat :: real
  h_lon :: real
  h_timestamp :: 't

record 't latest_row =
  l_imsi :: string
  l_enodeb_id :: string
  l_cell_id :: string
  l_tower_name :: "string option"
  l_lat :: "real option"
  l_lon :: "real option"
  l_timestamp :: 't
  l_source :: string
  l_device_model :: "string option"
  l_updated_at :: int

record audit_row =
  a_processed :: int
  a_inserted :: int
  a_deduplicated :: int
  a_runtime_seconds :: int
  a_backfill_time :: int

record 't db =
  radius_matches :: "'t history_row list"
  latest_traces :: "string \<rightharpoonup> 't latest_row"
  backfill_audit :: "string \<rightharpoonup> audit_row"

text \<open>The columns of the constraint \<open>unique_radius_entry\<close>.\<close>

definition history_key :: "'t history_row \<Rightarrow> string \<times> string \<times> string \<times> 't" where
  "history_key r = (h_msisdn r, h_enodeb_id r, h_cell_id r, h_timestamp r)"

text \<open>
  \<open>INSERT INTO radius_matches ... ON CONFLICT ... DO NOTHING\<close>, one row after the other:
  a row whose key is in the table is passed over.
\<close>

fun insert_history :: "'t history_row list \<Rightarrow> 't history_row list \<Rightarrow> 't history_row list" where
  "insert_history tbl [] = tbl"
| "insert_history tbl (r # rs) =
     insert_history (if history_key r \<in> history_key ` set tbl then tbl else tbl @ [r]) rs"

text \<open>
  The outcome the environment gives to one database transaction of the backfill: no fault,
  or the step at which an exception is raised. A statement that fails for its data (a value
  too long for its column, say) is a fault of that statement.
\<close>

datatype db_fault = NoFault | ConnectFails | HistoryInsertFails | LatestUpsertFails | CommitFails

section \<open>Batch persistence of the backfill\<close>

text \<open>The pydantic model \<open>RadiusRecord\<close>.\<close>

record radius_record =
  msisdn :: string
  imsi :: string
  enodeb_id :: string
  cell_id :: string
  tower_name :: string
  lat :: real
  lon :: real
  timestamp :: string
  device_model :: string

definition matches_data :: "radius_record \<Rightarrow> string history_row" where
  "matches_data r =
     \<lparr>h_msisdn = msisdn r, h_imsi = imsi r, h_imei = None, h_enodeb_id = enodeb_id r,
      h_cell_id = cell_id r, h_tower_name = tower_name r, h_lat = lat r, h_lon = lon r,
      h_timestamp = timestamp r\<rparr>"

text \<open>
  The row that the upsert of \<open>bulk_insert_records\<close> leaves for a record: the inserted row
  and the row after \<open>DO UPDATE SET\<close> are the same, since every column is assigned;
  \<open>now\<close> is what \<open>NOW()\<close> gives in the transaction.
\<close>

definition backfill_row :: "int \<Rightarrow> radius_record \<Rightarrow> string latest_row" where
  "backfill_row now r =
     \<lparr>l_imsi = imsi r, l_enodeb_id = enodeb_id r, l_cell_id = cell_id r,
      l_tower_name = Some (tower_name r), l_lat = Some (lat r), l_lon = Some (lon r),
      l_timestamp = timestamp r, l_source = ''backfill'',
      l_device_model = Some (device_model r), l_updated_at = now\<rparr>"

fun backfill_upsert ::
  "int \<Rightarrow> (string \<rightharpoonup> string latest_row) \<Rightarrow> radius_record list \<Rightarrow> (string \<rightharpoonup> string latest_row)" where
  "backfill_upsert now tbl [] = tbl"
| "backfill_upsert now tbl (r # rs) = backfill_upsert now (tbl(msisdn r \<mapsto> backfill_row now r)) rs"

text \<open>
  \<open>bulk_insert_records\<close>: one connection, one transaction. The two \<open>executemany\<close> calls
  work on the transaction's copy of the tables; \<open>commit\<close> makes the copy the database, and an
  exception leaves the \<open>with\<close> block through a rollback, so the database stays as it was.
  The result is the \<open>rowcount\<close> of the upsert, one per record.
\<close>

definition bulk_insert_records ::
  "db_fault \<Rightarrow> int \<Rightarrow> string db \<Rightarrow> radius_record list \<Rightarrow> (py_error + int) \<times> string db" where
  "bulk_insert_records fault now d records =
     (if records = [] then (Inr 0, d)
      else if fault = ConnectFails then (Inl DatabaseError, d)
      else if fault = HistoryInsertFails then (Inl DatabaseError, d)
      else let t1 = d\<lparr>radius_matches := insert_history (radius_matches d) (map matches_data records)\<rparr>
      in if fault = LatestUpsertFails then (Inl DatabaseError, d)
      else let t2 = t1\<lparr>latest_traces := backfill_upsert now (latest_traces t1) records\<rparr>;
               inserted = int (length records)
      in if fault = CommitFails then (Inl DatabaseError, d)
      else (Inr inserted, t2))"

section \<open>Batch persistence of \<open>radius_parser.py\<close> and \<open>radius_watcher.py\<close>\<close>

text \<open>
  The dictionary that \<open>parse_radius_record\<close> builds: a key that is absent is \<open>None\<close>.
  The \<open>timestamp\<close> is the instant of the \<open>datetime\<close>, in seconds.
\<close>

record parsed_record =
  p_msisdn :: "string option"
  p_ip_address :: "string option"
  p_imsi :: "string option"
  p_imei :: "string option"
  p_enodeb_id :: "int option"
  p_cell_id :: "int option"
  p_timestamp :: "int option"
  p_status_type :: "string option"

text \<open>\<open>str(r.get(key, ''))\<close> for an integer entry, and \<open>r.get(key, '')\<close> for a string entry.\<close>

definition str_get :: "int option \<Rightarrow> string" where
  "str_get v = (case v of None \<Rightarrow> [] | Some n \<Rightarrow> py_str_int n)"

definition get_or_empty :: "string option \<Rightarrow> string" where
  "get_or_empty v = (case v of None \<Rightarrow> [] | Some s \<Rightarrow> s)"

text \<open>\<open>r.get('timestamp', datetime.now())\<close>, with \<open>now\<close> the reading of the clock.\<close>

definition get_timestamp :: "int \<Rightarrow> parsed_record \<Rightarrow> int" where
  "get_timestamp now r = (case p_timestamp r of None \<Rightarrow> now | Some t \<Rightarrow> t)"

text \<open>
  The outcome the environment gives to one use of a shared connection: no fault, the
  statement fails, the commit fails, or the connection is lost (then the rollback of the
  exception handler raises as well).
\<close>

datatype pg_fault = PgOk | PgStatementFails | PgCommitFails | PgConnectionLost

text \<open>\<open>execute_values\<close> sends its rows in pages of 100, one statement per page.\<close>

function paginate :: "'a list \<Rightarrow> 'a list list" where
  "paginate xs = (if xs = [] then [] else take 100 xs # paginate (drop 100 xs))"
  by pat_completeness auto
termination
  by (relation "measure length") auto

declare paginate.simps [simp del]

subsection \<open>\<open>upsert_latest_traces\<close>\<close>

text \<open>The row a record is inserted as, and the columns that \<open>DO UPDATE SET\<close> assigns.\<close>

definition parser_row :: "int \<Rightarrow> parsed_record \<Rightarrow> int latest_row" where
  "parser_row now r =
     \<lparr>l_imsi = get_or_empty (p_imsi r), l_enodeb_id = str_get (p_enodeb_id r),
      l_cell_id = str_get (p_cell_id r), l_tower_name = Some [], l_lat = Some 0, l_lon = Some 0,
      l_timestamp = get_timestamp now r, l_source = ''radius'', l_device_model = Some [],
      l_updated_at = now\<rparr>"

definition parser_update :: "int \<Rightarrow> int latest_row \<Rightarrow> int latest_row \<Rightarrow> int latest_row" where
  "parser_update now old excluded =
     old\<lparr>l_enodeb_id := l_enodeb_id excluded, l_cell_id := l_cell_id excluded,
         l_timestamp := l_timestamp excluded, l_source := l_source excluded,
         l_imsi := l_imsi excluded, l_updated_at := now\<rparr>"

fun parser_upsert_rows ::
  "int \<Rightarrow> (string \<rightharpoonup> int latest_row) \<Rightarrow> parsed_record list \<Rightarrow> (string \<rightharpoonup> int latest_row)" where
  "parser_upsert_rows now tbl [] = tbl"
| "parser_upsert_rows now tbl (r # rs) =
     (let m = the (p_msisdn r)
      in parser_upsert_rows now
           (tbl(m \<mapsto> (case tbl m of None \<Rightarrow> parser_row now r
                                   | Some old \<Rightarrow> parser_update now old (parser_row now r)))) rs)"

text \<open>
  One page is one \<open>INSERT ... ON CONFLICT (msisdn) DO UPDATE\<close> statement. It fails when a
  row has no \<open>msisdn\<close> (the primary key is not null) and when two rows of the page have the
  same \<open>msisdn\<close> (the statement cannot affect a row a second time); \<open>None\<close> is the failure.
\<close>

definition parser_upsert_page ::
  "int \<Rightarrow> (string \<rightharpoonup> int latest_row) \<Rightarrow> parsed_record list \<Rightarrow> (string \<rightharpoonup> int latest_row) option" where
  "parser_upsert_page now tbl page =
     (if None \<in> set (map p_msisdn page) \<or> \<not> distinct (map p_msisdn page) then None
      else Some (parser_upsert_rows now tbl page))"

fun parser_upsert_pages ::
  "int \<Rightarrow> (string \<rightharpoonup> int latest_row) \<Rightarrow> parsed_record list list
     \<Rightarrow> (string \<rightharpoonup> int latest_row) option" where
  "parser_upsert_pages now tbl [] = Some tbl"
| "parser_upsert_pages now tbl (p # ps) =
     (case parser_upsert_page now tbl p of
        None \<Rightarrow> None
      | Some tbl' \<Rightarrow> parser_upsert_pages now tbl' ps)"

text \<open>
  \<open>upsert_latest_traces(records, conn)\<close> on a connection that the caller passes. The
  function commits by itself. An exception is answered by a rollback and the result 0; if
  the rollback raises too, the exception leaves the function.
\<close>

definition upsert_latest_traces ::
  "pg_fault \<Rightarrow> int \<Rightarrow> int db \<Rightarrow> parsed_record list \<Rightarrow> (py_error + nat) \<times> int db" where
  "upsert_latest_traces fault now d records =
     (if records = [] then (Inr 0, d)
      else if fault = PgConnectionLost then (Inl DatabaseError, d)
      else if fault = PgStatementFails then (Inr 0, d)
      else (case parser_upsert_pages now (latest_traces d) (paginate records) of
              None \<Rightarrow> (Inr 0, d)
            | Some tbl \<Rightarrow>
                if fault = PgCommitFails then (Inr 0, d)
                else (Inr (length records), d\<lparr>latest_traces := tbl\<rparr>)))"

subsection \<open>\<open>insert_radius_history\<close>\<close>

definition parser_history_row :: "int \<Rightarrow> parsed_record \<Rightarrow> int history_row" where
  "parser_history_row now r =
     \<lparr>h_msisdn = the (p_msisdn r), h_imsi = get_or_empty (p_imsi r),
      h_imei = Some (get_or_empty (p_imei r)), h_enodeb_id = str_get (p_enodeb_id r),
      h_cell_id = str_get (p_cell_id r), h_tower_name = [], h_lat = 0, h_lon = 0,
      h_timestamp = get_timestamp now r\<rparr>"

text \<open>
  The pages of the history insert, with the number of rows the last page added (the
  \<open>rowcount\<close> of the cursor). A row without \<open>msisdn\<close> violates the column's
  \<open>NOT NULL\<close>.
\<close>

fun parser_history_pages ::
  "int \<Rightarrow> int history_row list \<Rightarrow> nat \<Rightarrow> parsed_record list list \<Rightarrow> (int history_row list \<times> nat) option" where
  "parser_history_pages now tbl n [] = Some (tbl, n)"
| "parser_history_pages now tbl n (p # ps) =
     (if None \<in> set (map p_msisdn p) then None
      else (let tbl' = insert_history tbl (map (parser_history_row now) p)
            in parser_history_pages now tbl' (length tbl' - length tbl) ps))"

definition insert_radius_history ::
  "pg_fault \<Rightarrow> int \<Rightarrow> int db \<Rightarrow> parsed_record list \<Rightarrow> (py_error + nat) \<times> int db" where
  "insert_radius_history fault now d records =
     (if records = [] then (Inr 0, d)
      else if fault = PgConnectionLost then (Inl DatabaseError, d)
      else if fault = PgStatementFails then (Inr 0, d)
      else (case parser_history_pages now (radius_matches d) 0 (paginate records) of
              None \<Rightarrow> (Inr 0, d)
            | Some (tbl, n) \<Rightarrow>
                if fault = PgCommitFails then (Inr 0, d)
                else (Inr n, d\<lparr>radius_matches := tbl\<rparr>)))"

subsection \<open>\<open>process_file\<close> of \<open>radius_parser.py\<close>\<close>

text \<open>
  The two calls that \<open>process_file\<close> makes for a batch, in its loop and after it:
  \<open>inserted = upsert_latest_traces(batch, conn)\<close>, then
  \<open>insert_radius_history(batch, conn)\<close>, whose result is dropped. The faults are those of
  the first and of the second call.
\<close>

definition persist_batch ::
  "pg_fault \<Rightarrow> pg_fault \<Rightarrow> int \<Rightarrow> int db \<Rightarrow> parsed_record list \<Rightarrow> (py_error + nat) \<times> int db" where
  "persist_batch f1 f2 now d batch =
     (case upsert_latest_traces f1 now d batch of
        (Inl e, d1) \<Rightarrow> (Inl e, d1)
      | (Inr inserted, d1) \<Rightarrow>
          (case insert_radius_history f2 now d1 batch of
             (Inl e, d2) \<Rightarrow> (Inl e, d2)
           | (Inr _, d2) \<Rightarrow> (Inr inserted, d2)))"

text \<open>
  The loop of \<open>process_file\<close> over the records that \<open>parse_radius_file\<close> yields. The
  script gives the faults of the database calls in the order of the calls, two per batch;
  when it is used up, no fault occurs. The arguments after the records are the batch, the
  two totals, the script and the database.
\<close>

fun script_next :: "pg_fault list \<Rightarrow> pg_fault \<times> pg_fault \<times> pg_fault list" where
  "script_next [] = (PgOk, PgOk, [])"
| "script_next [f1] = (f1, PgOk, [])"
| "script_next (f1 # f2 # fs) = (f1, f2, fs)"

fun process_records ::
  "nat \<Rightarrow> int \<Rightarrow> parsed_record list \<Rightarrow> parsed_record list \<Rightarrow> nat \<Rightarrow> nat \<Rightarrow> pg_fault list \<Rightarrow> int db
     \<Rightarrow> (py_error + nat \<times> nat) \<times> int db" where
  "process_records batch_size now [] batch total_processed total_inserted script d =
     (if batch \<noteq> [] then
        (case script_next script of (f1, f2, script') \<Rightarrow>
           (case persist_batch f1 f2 now d batch of
              (Inl e, d') \<Rightarrow> (Inl e, d')
            | (Inr inserted, d') \<Rightarrow>
                (Inr (total_processed + length batch, total_inserted + inserted), d')))
      else (Inr (total_processed, total_inserted), d))"
| "process_records batch_size now (record # rest) batch total_processed total_inserted script d =
     (let batch = batch @ [record]
      in if length batch \<ge> batch_size then
           (case script_next script of (f1, f2, script') \<Rightarrow>
              (case persist_batch f1 f2 now d batch of
                 (Inl e, d') \<Rightarrow> (Inl e, d')
               | (Inr inserted, d') \<Rightarrow>
                   process_records batch_size now rest [] (total_processed + length batch)
                     (total_inserted + inserted) script' d'))
         else process_records batch_size now rest batch total_processed total_inserted script d)"

text \<open>
  \<open>process_file\<close>: the connection is opened first, and a failure to connect leaves the
  function as an exception. The argument \<open>records\<close> is what \<open>parse_radius_file\<close> yields
  for the file.
\<close>

definition process_file ::
  "nat \<Rightarrow> bool \<Rightarrow> int \<Rightarrow> pg_fault list \<Rightarrow> int db \<Rightarrow> parsed_record list
     \<Rightarrow> (py_error + nat \<times> nat) \<times> int db" where
  "process_file batch_size connect_fails now script d records =
     (if connect_fails then (Inl DatabaseError, d)
      else process_records batch_size now records [] 0 0 script d)"

subsection \<open>\<open>RadiusWatcher.insert_records\<close>\<close>

text \<open>
  The first statement of \<open>insert_records\<close>, for one record: the insert leaves the columns
  it does not name \<open>NULL\<close>; on a conflict the named columns are assigned only where the
  stored timestamp is older than the incoming one. \<open>None\<close> is the failure of the
  statement for a record without \<open>msisdn\<close>.
\<close>

definition watcher_row :: "int \<Rightarrow> parsed_record \<Rightarrow> int latest_row" where
  "watcher_row now r =
     \<lparr>l_imsi = get_or_empty (p_imsi r), l_enodeb_id = str_get (p_enodeb_id r),
      l_cell_id = str_get (p_cell_id r), l_tower_name = None, l_lat = None, l_lon = None,
      l_timestamp = get_timestamp now r, l_source = ''radius'', l_device_model = None,
      l_updated_at = now\<rparr>"

definition watcher_update :: "int latest_row \<Rightarrow> int latest_row \<Rightarrow> int latest_row" where
  "watcher_update old excluded =
     old\<lparr>l_imsi := l_imsi excluded, l_enodeb_id := l_enodeb_id excluded,
         l_cell_id := l_cell_id excluded, l_timestamp := l_timestamp excluded,
         l_source := ''radius''\<rparr>"

fun watcher_upsert ::
  "int \<Rightarrow> (string \<rightharpoonup> int latest_row) \<Rightarrow> parsed_record list \<Rightarrow> (string \<rightharpoonup> int latest_row) option" where
  "watcher_upsert now tbl [] = Some tbl"
| "watcher_upsert now tbl (r # rs) =
     (case p_msisdn r of
        None \<Rightarrow> None
      | Some m \<Rightarrow>
          watcher_upsert now
            (case tbl m of
               None \<Rightarrow> tbl(m \<mapsto> watcher_row now r)
             | Some old \<Rightarrow>
                 if l_timestamp old < l_timestamp (watcher_row now r)
                 then tbl(m \<mapsto> watcher_update old (watcher_row now r))
                 else tbl) rs)"

text \<open>
  \<open>insert_records\<close> on an open connection: the upsert of \<open>latest_traces\<close>, the insert
  into \<open>radius_matches\<close>, one commit. Every exception is answered by a rollback and the
  result 0.
\<close>

definition insert_records ::
  "pg_fault \<Rightarrow> int \<Rightarrow> int db \<Rightarrow> parsed_record list \<Rightarrow> nat \<times> int db" where
  "insert_records fault now d records =
     (if records = [] then (0, d)
      else if fault = PgConnectionLost \<or> fault = PgStatementFails then (0, d)
      else (case watcher_upsert now (latest_traces d) records of
              None \<Rightarrow> (0, d)
            | Some tbl \<Rightarrow>
                let t1 = d\<lparr>latest_traces := tbl\<rparr>;
                    t2 = t1\<lparr>radius_matches :=
                           insert_history (radius_matches t1) (map (parser_history_row now) records)\<rparr>
                in if fault = PgCommitFails then (0, d) else (length records, t2)))"

section \<open>Record parser of the backfill\<close>

text \<open>
  \<open>read_log_entries\<close>: the lines of the file are stripped; a blank line closes the block
  that the buffer holds, and a block that the end of the file leaves open is yielded too.
\<close>

fun read_entries_loop :: "string list \<Rightarrow> string list \<Rightarrow> string list list" where
  "read_entries_loop [] buffer = (if buffer \<noteq> [] then [buffer] else [])"
| "read_entries_loop (line # rest) buffer =
     (let line = py_strip line
      in if line = [] \<and> buffer \<noteq> [] then buffer # read_entries_loop rest []
         else if line \<noteq> [] then read_entries_loop rest (buffer @ [line])
         else read_entries_loop rest buffer)"

definition read_log_entries :: "string list \<Rightarrow> string list list" where
  "read_log_entries lines = read_entries_loop lines []"

text \<open>
  The pattern \<open>(\S+)\s+=\s+"?(.*?)"?$\<close> of \<open>parse_entry\<close>, matched at the start of a
  stripped line: the key is the first run of characters that are not white space; white
  space, the equals sign and white space follow; the value is the rest, without one leading
  and one trailing double quote.
\<close>

definition unquote :: "string \<Rightarrow> string" where
  "unquote s =
     (let a = (if py_startswith s [CHR 0x22] then drop 1 s else s)
      in if a \<noteq> [] \<and> last a = CHR 0x22 then butlast a else a)"

definition match_line :: "string \<Rightarrow> (string \<times> string) option" where
  "match_line line =
     (let key = takeWhile (\<lambda>c. \<not> py_isspace c) line;
          r1 = dropWhile (\<lambda>c. \<not> py_isspace c) line;
          r2 = dropWhile py_isspace r1
      in if key = [] \<or> r1 = [] then None
         else (case r2 of
                 [] \<Rightarrow> None
               | c # r3 \<Rightarrow>
                   if c \<noteq> CHR ''='' then None
                   else (let r4 = dropWhile py_isspace r3
                         in if r4 = r3 then None else Some (key, unquote r4))))"

fun parse_entry_loop :: "string list \<Rightarrow> (string \<rightharpoonup> string) \<Rightarrow> (string \<rightharpoonup> string)" where
  "parse_entry_loop [] entry = entry"
| "parse_entry_loop (line # lines) entry =
     (case match_line line of
        None \<Rightarrow> parse_entry_loop lines entry
      | Some (key, v) \<Rightarrow> parse_entry_loop lines (entry(key \<mapsto> v)))"

definition parse_entry :: "string list \<Rightarrow> (string \<rightharpoonup> string)" where
  "parse_entry lines = parse_entry_loop lines Map.empty"

section \<open>Record builder of the backfill\<close>

text \<open>
  What \<open>build_record\<close> takes from outside the repository's source files:
  \<^item> \<open>strptime_utc\<close> is \<open>datetime.strptime(raw, "%b %d %Y %H:%M:%S UTC")\<close>, the instant in
    seconds, or \<open>None\<close> for its \<open>ValueError\<close>;
  \<^item> \<open>strftime_gmt4\<close> is \<open>strftime("%b %d %Y %H:%M:%S GMT-04")\<close> of an instant at the
    offset of minus four hours, and \<open>strptime_gmt4_ok\<close> says whether \<open>strptime\<close> reads
    a string in that format;
  \<^item> \<open>clock\<close> is the time of the run, which stands for \<open>datetime.now\<close> and for \<open>NOW()\<close>,
    and \<open>runtime\<close> the seconds that the audit row reports;
  \<^item> \<open>decode_location_info\<close> of \<open>Tools.cell_mapper\<close> is not among the source files: the
    field gives, for a location code, the five values (tower, enodeb, cell, lat, lon), or
    \<open>None\<close> when it raises or returns what \<open>process_location\<close> or the types of
    \<open>RadiusRecord\<close> reject;
  \<^item> \<open>device_models\<close> is the table that \<open>lookup_device_model\<close> reads, with the text it
    returns for a known allocation code;
  \<^item> \<open>BATCH_SIZE\<close> is \<open>Config.BATCH_SIZE\<close>, 1000 in the source.
\<close>

record location =
  loc_tower :: string
  loc_enodeb :: int
  loc_cell :: int
  loc_lat :: real
  loc_lon :: real

record env =
  strptime_utc :: "string \<Rightarrow> int option"
  strftime_gmt4 :: "int \<Rightarrow> string"
  strptime_gmt4_ok :: "string \<Rightarrow> bool"
  clock :: int
  runtime :: int
  decode_location_info :: "string \<Rightarrow> location option"
  device_models :: "string \<rightharpoonup> string"
  BATCH_SIZE :: nat

text \<open>The calendar day of an instant at the offset of minus four hours.\<close>

definition local_date :: "int \<Rightarrow> int" where
  "local_date t = (t - 14400) div 86400"

definition process_timestamp :: "env \<Rightarrow> string \<Rightarrow> string option" where
  "process_timestamp e raw_ts =
     (case strptime_utc e raw_ts of
        None \<Rightarrow> None
      | Some t \<Rightarrow>
          if local_date t \<noteq> local_date (clock e) then None
          else Some (strftime_gmt4 e t))"

definition process_location :: "env \<Rightarrow> string \<Rightarrow> location option" where
  "process_location e raw_loc = decode_location_info e raw_loc"

definition lookup_device_model :: "env \<Rightarrow> string \<Rightarrow> string" where
  "lookup_device_model e tac =
     (if tac = [] \<or> length tac < 8 then ''Unknown Device''
      else (case device_models e (take 8 tac) of
              None \<Rightarrow> ''Unknown Device''
            | Some m \<Rightarrow> m))"

text \<open>\<open>entry.get(key, "").strip()\<close>.\<close>

definition get_strip :: "(string \<rightharpoonup> string) \<Rightarrow> string \<Rightarrow> string" where
  "get_strip entry key = py_strip (case entry key of None \<Rightarrow> [] | Some v \<Rightarrow> v)"

text \<open>
  \<open>build_record\<close>. The validators of \<open>RadiusRecord\<close> raise \<open>ValidationError\<close>, which
  \<open>build_record\<close> answers with \<open>None\<close>.
\<close>

definition build_record :: "env \<Rightarrow> (string \<rightharpoonup> string) \<Rightarrow> radius_record option" where
  "build_record e entry =
     (let msisdn = get_strip entry ''Calling-Station-Id'';
          imsi = py_strip (case entry ''3GPP-IMSI'' of
                             None \<Rightarrow> (case entry ''User-Name'' of None \<Rightarrow> [] | Some v \<Rightarrow> v)
                           | Some v \<Rightarrow> if v = [] then
                                         (case entry ''User-Name'' of None \<Rightarrow> [] | Some v \<Rightarrow> v)
                                       else v);
          raw_loc = get_strip entry ''3GPP-User-Location-Info'';
          raw_ts = get_strip entry ''Event-Timestamp'';
          imei_raw = get_strip entry ''3GPP-IMEISV''
      in if msisdn = [] \<or> raw_loc = [] \<or> raw_ts = [] then None
         else (case process_timestamp e raw_ts of
                 None \<Rightarrow> None
               | Some ts \<Rightarrow>
                   if ts = [] then None
                   else (case process_location e raw_loc of
                           None \<Rightarrow> None
                         | Some location_data \<Rightarrow>
                             let model = (if imei_raw \<noteq> [] then lookup_device_model e (take 8 imei_raw)
                                          else ''Unknown'')
                             in if length msisdn < 10 then None
                                else if \<not> strptime_gmt4_ok e ts then None
                                else Some \<lparr>msisdn = msisdn, imsi = imsi,
                                           enodeb_id = py_str_int (loc_enodeb location_data),
                                           cell_id = py_str_int (loc_cell location_data),
                                           tower_name = loc_tower location_data,
                                           lat = loc_lat location_data, lon = loc_lon location_data,
                                           timestamp = ts, device_model = model\<rparr>)))"

section \<open>File processing of the backfill\<close>

text \<open>
  The state that a backfill run works on: the database, the log files on disk (path to
  lines), the checkpoint file, the lock file, and a trace of the durable effects in the
  order in which they happen. The two scripts are the environment's answers: the faults of
  the database transactions and the failures of the file-system operations that can fail,
  each in the order of the operations; a script that is used up means no fault.
\<close>

datatype event =
    Started string int
  | BatchCommitted string nat
  | CheckpointSaved string int
  | AuditCommitted string
  | FileDeleted string
  | LockRemoved
  | CheckpointsCleared

record world =
  w_db :: "string db"
  w_disk :: "string \<rightharpoonup> string list"
  w_progress :: progress_file
  w_lock :: bool
  w_db_faults :: "db_fault list"
  w_fs_faults :: "bool list"
  w_trace :: "event list"

definition pop_db_fault :: "world \<Rightarrow> db_fault \<times> world" where
  "pop_db_fault w =
     (case w_db_faults w of
        [] \<Rightarrow> (NoFault, w)
      | f # fs \<Rightarrow> (f, w\<lparr>w_db_faults := fs\<rparr>))"

definition pop_fs_fault :: "world \<Rightarrow> bool \<times> world" where
  "pop_fs_fault w =
     (case w_fs_faults w of
        [] \<Rightarrow> (False, w)
      | f # fs \<Rightarrow> (f, w\<lparr>w_fs_faults := fs\<rparr>))"

definition emit :: "event \<Rightarrow> world \<Rightarrow> world" where
  "emit ev w = w\<lparr>w_trace := w_trace w @ [ev]\<rparr>"

text \<open>\<open>inserted += bulk_insert_records(batch)\<close> in the state.\<close>

definition flush_batch ::
  "env \<Rightarrow> string \<Rightarrow> radius_record list \<Rightarrow> int \<Rightarrow> world \<Rightarrow> (py_error + int) \<times> world" where
  "flush_batch e log_file batch inserted w =
     (case pop_db_fault w of (fault, w1) \<Rightarrow>
        (case bulk_insert_records fault (clock e) (w_db w1) batch of
           (Inl err, d) \<Rightarrow> (Inl err, w1\<lparr>w_db := d\<rparr>)
         | (Inr n, d) \<Rightarrow>
             (Inr (inserted + n), emit (BatchCommitted log_file (length batch)) (w1\<lparr>w_db := d\<rparr>))))"

text \<open>\<open>tracker.save(log_file, position)\<close> in the state: a failure is logged and ignored.\<close>

definition tracker_save :: "string \<Rightarrow> int \<Rightarrow> world \<Rightarrow> world" where
  "tracker_save log_file position w =
     (case pop_fs_fault w of (fails, w1) \<Rightarrow>
        if fails then w1
        else emit (CheckpointSaved log_file position)
               (w1\<lparr>w_progress := save (w_progress w1) log_file position\<rparr>))"

text \<open>
  The loop of \<open>process_log_file\<close> over the enumerated entries. The arguments after the
  entries are \<open>entry_num\<close>, the batch and the two counters.
\<close>

fun process_entries ::
  "env \<Rightarrow> string \<Rightarrow> string list list \<Rightarrow> nat \<Rightarrow> radius_record list \<Rightarrow> int \<Rightarrow> int \<Rightarrow> world
     \<Rightarrow> (py_error + radius_record list \<times> int \<times> int) \<times> world" where
  "process_entries e log_file [] entry_num batch processed inserted w =
     (Inr (batch, processed, inserted), w)"
| "process_entries e log_file (entry_lines # rest) entry_num batch processed inserted w =
     (case build_record e (parse_entry entry_lines) of
        None \<Rightarrow> process_entries e log_file rest (Suc entry_num) batch processed inserted w
      | Some record \<Rightarrow>
          (let batch = batch @ [record]; processed = processed + 1
           in if length batch \<ge> BATCH_SIZE e then
                (case flush_batch e log_file batch inserted w of
                   (Inl err, w1) \<Rightarrow> (Inl err, w1)
                 | (Inr inserted, w1) \<Rightarrow>
                     process_entries e log_file rest (Suc entry_num) [] processed inserted
                       (tracker_save log_file (int entry_num + 1) w1))
              else process_entries e log_file rest (Suc entry_num) batch processed inserted w))"

text \<open>
  The audit insert: its own connection and transaction, \<open>ON CONFLICT (filename) DO
  NOTHING\<close>. Any fault of the transaction raises and leaves the table as it was.
\<close>

definition audit_insert ::
  "env \<Rightarrow> string \<Rightarrow> int \<Rightarrow> int \<Rightarrow> world \<Rightarrow> (py_error + unit) \<times> world" where
  "audit_insert e log_file processed inserted w =
     (case pop_db_fault w of (fault, w1) \<Rightarrow>
        if fault \<noteq> NoFault then (Inl DatabaseError, w1)
        else (let d = w_db w1;
                  row = \<lparr>a_processed = processed, a_inserted = inserted,
                         a_deduplicated = processed - inserted, a_runtime_seconds = runtime e,
                         a_backfill_time = clock e\<rparr>;
                  d' = (case backfill_audit d log_file of
                          None \<Rightarrow> d\<lparr>backfill_audit := (backfill_audit d)(log_file \<mapsto> row)\<rparr>
                        | Some _ \<Rightarrow> d)
              in (Inr (), emit (AuditCommitted log_file) (w1\<lparr>w_db := d'\<rparr>))))"

text \<open>\<open>Path(log_file).unlink()\<close> in the state: a failure is logged and ignored.\<close>

definition unlink_log :: "string \<Rightarrow> world \<Rightarrow> world" where
  "unlink_log log_file w =
     (case pop_fs_fault w of (fails, w1) \<Rightarrow>
        if fails \<or> w_disk w1 log_file = None then w1
        else emit (FileDeleted log_file) (w1\<lparr>w_disk := (w_disk w1)(log_file := None)\<rparr>))"

text \<open>
  \<open>process_log_file\<close>. The resume position is read from the checkpoint file and written
  to the log; a file that cannot be opened raises at the first step of the loop.
\<close>

definition process_log_file :: "env \<Rightarrow> string \<Rightarrow> world \<Rightarrow> (py_error + int \<times> int) \<times> world" where
  "process_log_file e log_file w =
     (let resume_pos = (case load (w_progress w) log_file of None \<Rightarrow> 0 | Some p \<Rightarrow> p);
          w0 = emit (Started log_file resume_pos) w
      in case w_disk w0 log_file of
           None \<Rightarrow> (Inl OSError, w0)
         | Some lines \<Rightarrow>
             (case process_entries e log_file (read_log_entries lines) 0 [] 0 0 w0 of
                (Inl err, w1) \<Rightarrow> (Inl err, w1)
              | (Inr (batch, processed, inserted), w1) \<Rightarrow>
                  (case (if batch \<noteq> [] then flush_batch e log_file batch inserted w1
                         else (Inr inserted, w1)) of
                     (Inl err, w2) \<Rightarrow> (Inl err, w2)
                   | (Inr inserted, w2) \<Rightarrow>
                       (case audit_insert e log_file processed inserted w2 of
                          (Inl err, w3) \<Rightarrow> (Inl err, w3)
                        | (Inr _, w3) \<Rightarrow> (Inr (processed, inserted), unlink_log log_file w3)))))"

text \<open>The events of the loop of \<open>process_log_file\<close>: a committed batch, a saved checkpoint.\<close>

definition batch_event :: "event \<Rightarrow> bool" where
  "batch_event ev = (case ev of BatchCommitted _ _ \<Rightarrow> True | CheckpointSaved _ _ \<Rightarrow> True | _ \<Rightarrow> False)"

text \<open>
  Two states that agree on everything but the checkpoint file and the trace, and a state
  in which the lock is held and no file-system operation is going to fail.
\<close>

definition same_but_checkpoint :: "world \<Rightarrow> world \<Rightarrow> bool" where
  "same_but_checkpoint a b =
     (w_db a = w_db b \<and> w_disk a = w_disk b \<and> w_lock a = w_lock b
      \<and> w_db_faults a = w_db_faults b \<and> w_fs_faults a = w_fs_faults b)"

definition lock_held :: "world \<Rightarrow> bool" where
  "lock_held w = (w_lock w \<and> w_fs_faults w = [])"

section \<open>Orchestration of the backfill\<close>

text \<open>
  \<open>perform_maintenance\<close>: audit rows older than \<open>PURGE_AGE_DAYS\<close> are deleted and the
  deletion is committed; every exception is logged and ignored.
\<close>

definition PURGE_AGE_DAYS :: int where
  "PURGE_AGE_DAYS = 30"

definition perform_maintenance :: "env \<Rightarrow> world \<Rightarrow> world" where
  "perform_maintenance e w =
     (case pop_db_fault w of (fault, w1) \<Rightarrow>
        if fault \<noteq> NoFault then w1
        else (let d = w_db w1;
                  keep = (\<lambda>k. case backfill_audit d k of
                                 None \<Rightarrow> None
                               | Some r \<Rightarrow>
                                   if a_backfill_time r < clock e - PURGE_AGE_DAYS * 86400
                                   then None else Some r)
              in w1\<lparr>w_db := d\<lparr>backfill_audit := keep\<rparr>\<rparr>))"

text \<open>
  The files of one directory: the pool runs \<open>process_log_file\<close> for each, and the failure
  of a file is logged and does not stop the others. The model runs the files one after the
  other, in the order of submission. The totals are those of the files that returned.
\<close>

fun process_files :: "env \<Rightarrow> string list \<Rightarrow> int \<Rightarrow> int \<Rightarrow> world \<Rightarrow> (int \<times> int) \<times> world" where
  "process_files e [] total_processed total_inserted w = ((total_processed, total_inserted), w)"
| "process_files e (f # fs) total_processed total_inserted w =
     (case process_log_file e f w of
        (Inl err, w1) \<Rightarrow> process_files e fs total_processed total_inserted w1
      | (Inr (processed, inserted), w1) \<Rightarrow>
          process_files e fs (total_processed + processed) (total_inserted + inserted) w1)"

fun process_all :: "env \<Rightarrow> (string \<times> string list) list \<Rightarrow> int \<Rightarrow> int \<Rightarrow> world \<Rightarrow> (int \<times> int) \<times> world" where
  "process_all e [] tp ti w = ((tp, ti), w)"
| "process_all e ((pgw_ip, files) # rest) tp ti w =
     (case process_files e files tp ti w of
        ((tp', ti'), w1) \<Rightarrow> process_all e rest tp' ti' w1)"

text \<open>
  The \<open>finally\<close> block of \<open>backfill\<close>: the lock file is removed and then the checkpoints
  are cleared; if removing the lock file raises, \<open>clear\<close> is not reached. A failure
  inside \<open>clear\<close> is logged and leaves the checkpoint file.
\<close>

definition cleanup :: "world \<Rightarrow> world" where
  "cleanup w =
     (case pop_fs_fault w of (unlink_fails, w1) \<Rightarrow>
        if unlink_fails \<or> \<not> w_lock w1 then w1
        else (let w2 = emit LockRemoved (w1\<lparr>w_lock := False\<rparr>)
              in case pop_fs_fault w2 of (clear_fails, w3) \<Rightarrow>
                   if clear_fails then w3
                   else emit CheckpointsCleared (w3\<lparr>w_progress := clear (w_progress w3)\<rparr>)))"

text \<open>
  \<open>backfill\<close>. The argument \<open>all_logs\<close> is what \<open>get_all_log_files\<close> finds, directory by
  directory. The steps that can fail before the files are processed take their answer from
  the scripts: writing the lock file, the connection that creates the tables, the scan of
  the log directory.
\<close>

definition backfill :: "env \<Rightarrow> (string \<times> string list) list \<Rightarrow> world \<Rightarrow> world" where
  "backfill e all_logs w =
     (if w_lock w then w
      else (case pop_fs_fault w of (lock_fails, w1) \<Rightarrow>
        if lock_fails then w1
        else (let w2 = w1\<lparr>w_lock := True\<rparr>
              in case pop_db_fault w2 of (fault, w3) \<Rightarrow>
                   if fault \<noteq> NoFault then cleanup w3
                   else (case pop_fs_fault w3 of (scan_fails, w4) \<Rightarrow>
                     if scan_fails then cleanup w4
                     else if all_logs = [] then cleanup w4
                     else (case process_all e all_logs 0 0 w4 of
                             (totals, w5) \<Rightarrow> cleanup (perform_maintenance e w5))))))"

section \<open>Sample data\<close>

definition empty_db :: "'t db" where
  "empty_db = \<lparr>radius_matches = [], latest_traces = Map.empty, backfill_audit = Map.empty\<rparr>"

definition sample_record :: radius_record where
  "sample_record =
     \<lparr>msisdn = ''5926001234'', imsi = ''738020000000001'', enodeb_id = ''4039'', cell_id = ''14'',
      tower_name = ''Tower A'', lat = 6.8, lon = -58.1,
      timestamp = ''Jan 05 2025 10:00:00 GMT-04'', device_model = ''Unknown''\<rparr>"

definition sample_parsed :: parsed_record where
  "sample_parsed =
     \<lparr>p_msisdn = Some ''5926001234'', p_ip_address = None, p_imsi = Some ''738020000000001'',
      p_imei = None, p_enodeb_id = Some 4039, p_cell_id = Some 14, p_timestamp = Some 100,
      p_status_type = None\<rparr>"

text \<open>A row that the backfill wrote for the same subscriber, with a later event time.\<close>

definition stored_row :: "int latest_row" where
  "stored_row =
     \<lparr>l_imsi = ''738020000000001'', l_enodeb_id = ''4040'', l_cell_id = ''11'',
      l_tower_name = Some ''Tower B'', l_lat = Some 6.5, l_lon = Some (-58),
      l_timestamp = 200, l_source = ''backfill'', l_device_model = Some ''Unknown'',
      l_updated_at = 250\<rparr>"

definition stored_db :: "int db" where
  "stored_db = empty_db\<lparr>latest_traces := [''5926001234'' \<mapsto> stored_row]\<rparr>"

text \<open>
  A detail file of the gateway: each block is a header line, attribute lines that begin
  with a tab, and a blank line.
\<close>

definition attribute_line :: "string \<Rightarrow> string \<Rightarrow> string" where
  "attribute_line key v = [CHR 0x09] @ key @ '' = '' @ v @ [CHR 0x0A]"

definition quoted :: "string \<Rightarrow> string" where
  "quoted s = [CHR 0x22] @ s @ [CHR 0x22]"

definition sample_block :: "string \<Rightarrow> string list" where
  "sample_block ms =
     [''Sun Jan  5 14:00:00 2025'' @ [CHR 0x0A],
      attribute_line ''Calling-Station-Id'' (quoted ms),
      attribute_line ''3GPP-User-Location-Info'' ''0x823708401b59370840000fc70e'',
      attribute_line ''Event-Timestamp'' (quoted ''Jan 05 2025 14:00:00 UTC''),
      [CHR 0x0A]]"

text \<open>A block without \<open>Calling-Station-Id\<close>.\<close>

definition anonymous_block :: "string list" where
  "anonymous_block =
     [''Sun Jan  5 14:00:00 2025'' @ [CHR 0x0A],
      attribute_line ''3GPP-User-Location-Info'' ''0x823708401b59370840000fc70e'',
      attribute_line ''Event-Timestamp'' (quoted ''Jan 05 2025 14:00:00 UTC''),
      [CHR 0x0A]]"

text \<open>
  An environment for the fifth of January 2025: the tower lookup knows the cell of the
  sample code, the table of device models is empty.
\<close>

definition sample_env :: env where
  "sample_env =
     \<lparr>strptime_utc = (\<lambda>s. if s = ''Jan 05 2025 14:00:00 UTC'' then Some 1736085600 else None),
      strftime_gmt4 = (\<lambda>t. if t = 1736085600 then ''Jan 05 2025 10:00:00 GMT-04'' else ''other''),
      strptime_gmt4_ok = (\<lambda>s. s = ''Jan 05 2025 10:00:00 GMT-04''),
      clock = 1736107200,
      runtime = 3,
      decode_location_info =
        (\<lambda>s. if s = ''0x823708401b59370840000fc70e''
             then Some \<lparr>loc_tower = ''Tower A'', loc_enodeb = 4039, loc_cell = 14,
                        loc_lat = 6.8, loc_lon = -58.1\<rparr>
             else None),
      device_models = Map.empty,
      BATCH_SIZE = 1000\<rparr>"

definition sample_log :: string where
  "sample_log = ''/var/log/freeradius/radacct/10.20.50.67/detail-20250105''"

text \<open>The stripped lines of a sample block, and the record that \<open>build_record\<close> makes of them.\<close>

definition stripped_block :: "string \<Rightarrow> string list" where
  "stripped_block ms =
     [''Sun Jan  5 14:00:00 2025'',
      ''Calling-Station-Id = '' @ quoted ms,
      ''3GPP-User-Location-Info = 0x823708401b59370840000fc70e'',
      ''Event-Timestamp = '' @ quoted ''Jan 05 2025 14:00:00 UTC'']"

definition stripped_anonymous :: "string list" where
  "stripped_anonymous =
     [''Sun Jan  5 14:00:00 2025'',
      ''3GPP-User-Location-Info = 0x823708401b59370840000fc70e'',
      ''Event-Timestamp = '' @ quoted ''Jan 05 2025 14:00:00 UTC'']"

definition block_record :: "string \<Rightarrow> radius_record" where
  "block_record ms =
     \<lparr>msisdn = ms, imsi = [], enodeb_id = ''4039'', cell_id = ''14'',
      tower_name = ''Tower A'', lat = 6.8, lon = -58.1,
      timestamp = ''Jan 05 2025 10:00:00 GMT-04'', device_model = ''Unknown''\<rparr>"

text \<open>A file of three blocks, and a file whose first block has no subscriber.\<close>

definition three_blocks :: "string list" where
  "three_blocks = sample_block ''5926001234'' @ sample_block ''5926005678'' @ sample_block ''5926009999''"

definition two_blocks :: "string list" where
  "two_blocks = anonymous_block @ sample_block ''5926001234''"

text \<open>
  The environments of a first run and of a restart one hour later, both with batches of
  two records.
\<close>

definition first_run_env :: env where
  "first_run_env = sample_env\<lparr>BATCH_SIZE := 2\<rparr>"

definition second_run_env :: env where
  "second_run_env = sample_env\<lparr>BATCH_SIZE := 2, clock := 1736110800\<rparr>"

definition sample_world :: "string list \<Rightarrow> world" where
  "sample_world lines =
     \<lparr>w_db = empty_db, w_disk = [sample_log \<mapsto> lines], w_progress = None,
      w_lock = False, w_db_faults = [], w_fs_faults = [], w_trace = []\<rparr>"

text \<open>
  A first run over the file of three blocks in which the commit of the second batch fails,
  and the state that it leaves.
\<close>

definition interrupted_start :: world where
  "interrupted_start = (sample_world three_blocks)\<lparr>w_db_faults := [NoFault, CommitFails]\<rparr>"

definition interrupted_world :: world where
  "interrupted_world = snd (process_log_file first_run_env sample_log interrupted_start)"

text \<open>The same failure inside a backfill run; the first fault is that of creating the tables.\<close>

definition failing_start :: world where
  "failing_start = (sample_world three_blocks)\<lparr>w_db_faults := [NoFault, NoFault, CommitFails]\<rparr>"

definition sample_logs :: "(string \<times> string list) list" where
  "sample_logs = [(''10.20.50.67'', [sample_log])]"

section \<open>Tail mode\<close>

subsection \<open>\<open>parse_radius_record\<close>\<close>

text \<open>\<open>line.partition('=')\<close> when the line has an equals sign, and \<open>s.strip('"')\<close>.\<close>

definition partition_eq :: "string \<Rightarrow> (string \<times> string) option" where
  "partition_eq line =
     (if CHR ''='' \<in> set line
      then Some (takeWhile (\<lambda>c. c \<noteq> CHR ''='') line, drop 1 (dropWhile (\<lambda>c. c \<noteq> CHR ''='') line))
      else None)"

definition strip_quotes :: "string \<Rightarrow> string" where
  "strip_quotes s =
     rev (dropWhile (\<lambda>c. c = CHR 0x22) (rev (dropWhile (\<lambda>c. c = CHR 0x22) s)))"

text \<open>
  One line of the loop of \<open>parse_radius_record\<close>. The parameter \<open>fromtimestamp\<close> stands
  for \<open>datetime.fromtimestamp\<close>: the instant for the seconds it accepts, \<open>None\<close> where it
  raises.
\<close>

definition parse_record_line ::
  "(int \<Rightarrow> int option) \<Rightarrow> string \<Rightarrow> parsed_record \<Rightarrow> parsed_record" where
  "parse_record_line fromtimestamp raw record =
     (let line = py_strip raw
      in if line = [] \<or> py_startswith line ''#'' then record
         else (case partition_eq line of
                 None \<Rightarrow> record
               | Some (k, v) \<Rightarrow>
                   (let key = py_strip k; value = strip_quotes (py_strip v)
                    in if key = ''Calling-Station-Id'' then record\<lparr>p_msisdn := Some value\<rparr>
                       else if key = ''Framed-IP-Address'' then record\<lparr>p_ip_address := Some value\<rparr>
                       else if key = ''3GPP-IMSI'' then record\<lparr>p_imsi := Some value\<rparr>
                       else if key = ''3GPP-IMEISV'' \<or> key = ''3GPP-IMEI''
                         then record\<lparr>p_imei := Some value\<rparr>
                       else if key = ''3GPP-User-Location-Info'' then
                         (case decode_eci value of
                            None \<Rightarrow> record
                          | Some decoded \<Rightarrow>
                              record\<lparr>p_enodeb_id := Some (eci_enodeb_id decoded),
                                     p_cell_id := Some (eci_cell_id decoded)\<rparr>)
                       else if key = ''Timestamp'' then
                         (case py_int 10 value of
                            None \<Rightarrow> record
                          | Some n \<Rightarrow>
                              (case fromtimestamp n of
                                 None \<Rightarrow> record
                               | Some t \<Rightarrow> record\<lparr>p_timestamp := Some t\<rparr>))
                       else if key = ''Acct-Status-Type'' then record\<lparr>p_status_type := Some value\<rparr>
                       else record)))"

definition empty_record :: parsed_record where
  "empty_record =
     \<lparr>p_msisdn = None, p_ip_address = None, p_imsi = None, p_imei = None, p_enodeb_id = None,
      p_cell_id = None, p_timestamp = None, p_status_type = None\<rparr>"

text \<open>\<open>record.get('msisdn') and record.get('enodeb_id')\<close>: an empty string and 0 are false.\<close>

definition has_msisdn_and_enodeb :: "parsed_record \<Rightarrow> bool" where
  "has_msisdn_and_enodeb r =
     ((case p_msisdn r of None \<Rightarrow> False | Some m \<Rightarrow> m \<noteq> [])
      \<and> (case p_enodeb_id r of None \<Rightarrow> False | Some n \<Rightarrow> n \<noteq> 0))"

definition parse_radius_record :: "(int \<Rightarrow> int option) \<Rightarrow> string list \<Rightarrow> parsed_record option" where
  "parse_radius_record fromtimestamp lines =
     (let record = foldl (\<lambda>r l. parse_record_line fromtimestamp l r) empty_record lines
      in if has_msisdn_and_enodeb record then Some record else None)"

subsection \<open>The file as the tail loops read it\<close>

text \<open>
  The content of a file is a string, a position is a number of characters, and iterating
  over the file yields the lines with their line feed; the last line may lack it.
\<close>

fun lines_from :: "string \<Rightarrow> string \<Rightarrow> string list" where
  "lines_from [] cur = (if cur = [] then [] else [cur])"
| "lines_from (c # cs) cur =
     (if c = CHR 0x0A then (cur @ [c]) # lines_from cs [] else lines_from cs (cur @ [c]))"

definition py_lines :: "string \<Rightarrow> string list" where
  "py_lines s = lines_from s []"

text \<open>
  The test that starts a new record: the line is not empty, its first character is not white
  space, and it is not blank.
\<close>

definition starts_record :: "string \<Rightarrow> bool" where
  "starts_record line = (line \<noteq> [] \<and> \<not> py_isspace (hd line) \<and> py_strip line \<noteq> [])"

subsection \<open>\<open>RadiusWatcher.process_file\<close> of \<open>radius_watcher.py\<close>\<close>

text \<open>
  The loop over the new lines: \<open>current_record\<close> and \<open>records\<close> are local variables of the
  call. The result is the list of records; what \<open>current_record\<close> holds when the lines end
  is returned with it, to show what the function drops.
\<close>

fun watcher_loop ::
  "(int \<Rightarrow> int option) \<Rightarrow> string list \<Rightarrow> string list \<Rightarrow> parsed_record list
     \<Rightarrow> parsed_record list \<times> string list" where
  "watcher_loop ft [] current_record records = (records, current_record)"
| "watcher_loop ft (line # rest) current_record records =
     (if starts_record line then
        watcher_loop ft rest []
          (if current_record \<noteq> [] then
             (case parse_radius_record ft current_record of
                None \<Rightarrow> records
              | Some parsed \<Rightarrow>
                  if has_msisdn_and_enodeb parsed then records @ [parsed] else records)
           else records)
      else watcher_loop ft rest (current_record @ [line]) records)"

text \<open>
  \<open>process_file\<close>: the state of the watcher that the function reads and writes is
  \<open>file_positions\<close>; the content is \<open>None\<close> when the file does not exist.
\<close>

definition watcher_process_file ::
  "(int \<Rightarrow> int option) \<Rightarrow> (string \<rightharpoonup> nat) \<Rightarrow> string \<Rightarrow> string option
     \<Rightarrow> parsed_record list \<times> (string \<rightharpoonup> nat)" where
  "watcher_process_file ft file_positions filepath content =
     (case content of
        None \<Rightarrow> ([], file_positions)
      | Some c \<Rightarrow>
          (let current_size = length c;
               stored = (case file_positions filepath of None \<Rightarrow> 0 | Some p \<Rightarrow> p);
               last_pos = (if current_size < stored then 0 else stored)
           in if current_size \<le> last_pos then ([], file_positions)
              else (fst (watcher_loop ft (py_lines (drop last_pos c)) [] []),
                    file_positions(filepath \<mapsto> current_size))))"

subsection \<open>\<open>RadiusFileHandler.process_new_lines\<close> of \<open>radius_watcher_old.py\<close>\<close>

text \<open>The same loop on \<open>self.buffer[filepath]\<close>, which outlives the call.\<close>

fun handler_loop ::
  "(int \<Rightarrow> int option) \<Rightarrow> string list \<Rightarrow> string list \<Rightarrow> parsed_record list
     \<Rightarrow> parsed_record list \<times> string list" where
  "handler_loop ft [] buffer records_to_insert = (records_to_insert, buffer)"
| "handler_loop ft (line # rest) buffer records_to_insert =
     (if starts_record line then
        handler_loop ft rest []
          (if buffer \<noteq> [] then
             (case parse_radius_record ft buffer of
                None \<Rightarrow> records_to_insert
              | Some parsed \<Rightarrow> records_to_insert @ [parsed])
           else records_to_insert)
      else handler_loop ft rest (buffer @ [line]) records_to_insert)"

record handler_state =
  hs_file_positions :: "string \<rightharpoonup> nat"
  hs_buffer :: "string \<rightharpoonup> string list"
  hs_db :: "int db"

text \<open>
  \<open>process_new_lines\<close>: a file that cannot be opened raises inside the \<open>try\<close> and
  leaves the state as it was. The records are persisted by \<open>upsert_latest_traces\<close> and
  \<open>insert_radius_history\<close> on the handler's connection, with the faults \<open>f1\<close> and
  \<open>f2\<close>; an exception of theirs is logged. The result lists the records of the call.
\<close>

definition process_new_lines ::
  "(int \<Rightarrow> int option) \<Rightarrow> pg_fault \<Rightarrow> pg_fault \<Rightarrow> int \<Rightarrow> handler_state \<Rightarrow> string \<Rightarrow> string option
     \<Rightarrow> parsed_record list \<times> handler_state" where
  "process_new_lines ft f1 f2 now st filepath content =
     (case content of
        None \<Rightarrow> ([], st)
      | Some c \<Rightarrow>
          (let stored = (case hs_file_positions st filepath of None \<Rightarrow> 0 | Some p \<Rightarrow> p);
               current_size = length c;
               last_pos = (if current_size < stored then 0 else stored);
               buffer = (case hs_buffer st filepath of None \<Rightarrow> [] | Some b \<Rightarrow> b)
           in case handler_loop ft (py_lines (drop last_pos c)) buffer [] of
                (records_to_insert, buffer') \<Rightarrow>
                  (records_to_insert,
                   st\<lparr>hs_file_positions := (hs_file_positions st)(filepath \<mapsto> current_size),
                      hs_buffer := (hs_buffer st)(filepath \<mapsto> buffer'),
                      hs_db := (if records_to_insert = [] then hs_db st
                                else snd (persist_batch f1 f2 now (hs_db st) records_to_insert))\<rparr>)))"

text \<open>
  A detail file in two polls: the first poll reads the header of a record and its
  subscriber line, the second the rest of the record and the header of the next.
\<close>

definition first_slice :: string where
  "first_slice = ''Sun Jan  5 14:00:00 2025\<newline>'' @
                 attribute_line ''Calling-Station-Id'' (quoted ''5926001234'')"

definition second_slice :: string where
  "second_slice = attribute_line ''3GPP-User-Location-Info'' ''0x823708401b59370840000fc70e'' @
                  ''\<newline>'' @ ''Sun Jan  5 14:00:05 2025\<newline>''"

definition watched_file :: string where
  "watched_file = ''/var/log/freeradius/radacct/10.20.50.67/detail-20250105''"

definition tail_record :: parsed_record where
  "tail_record = empty_record\<lparr>p_msisdn := Some ''5926001234'', p_enodeb_id := Some 4039,
                              p_cell_id := Some 14\<rparr>"

definition empty_handler :: handler_state where
  "empty_handler = \<lparr>hs_file_positions = Map.empty, hs_buffer = Map.empty, hs_db = empty_db\<rparr>"

section \<open>Theorems\<close>

subsection \<open>Location decoder\<close>

text \<open>
  C4, as the specification states it, does not hold: the last eight characters of
  \<open>0x823708401b59370840000fc70e\<close> are \<open>000fc70e\<close>, but their value is not 1033742 and
  the decoders do not return station 4038.
\<close>

theorem decode_literal_counterexample:
  "py_int 16 ''000fc70e'' \<noteq> Some 1033742
   \<and> decode_enodeb_cellid ''0x823708401b59370840000fc70e'' \<noteq> Inr (4038, 14)
   \<and> map_option eci_enodeb_id (decode_eci ''0x823708401b59370840000fc70e'') \<noteq> Some 4038"
  by code_simp

text \<open>
  C4, amended: decoding the location code \<open>0x823708401b59370840000fc70e\<close> takes the last
  eight characters \<open>000fc70e\<close>, whose value is 1033998; \<open>decode_enodeb_cellid\<close> returns
  (4039, 14), which is (1033998 >> 8, 1033998 & 0xFF), and \<open>decode_eci\<close> returns
  enodeb_id 4039 and cell_id 14.
\<close>

theorem decode_literal_scenario:
  "py_last 8 (drop 2 ''0x823708401b59370840000fc70e'') = ''000fc70e''
   \<and> py_int 16 ''000fc70e'' = Some 1033998
   \<and> drop_bit 8 (1033998 :: int) = 4039
   \<and> (1033998 :: int) AND 255 = 14
   \<and> decode_enodeb_cellid ''0x823708401b59370840000fc70e'' = Inr (4039, 14)
   \<and> decode_eci ''0x823708401b59370840000fc70e''
       = Some \<lparr>eci_enodeb_id = 4039, eci_cell_id = 14, eci = 1033998\<rparr>"
  by code_simp

lemma length_py_remove2: "length (py_remove2 a b s) \<le> length s"
  by (induction a b s rule: py_remove2.induct) auto

text \<open>
  \<open>decode_eci\<close> checks the length: a code with fewer than eight characters after its
  \<open>0x\<close> prefix is answered with \<open>None\<close>, and no exception leaves the function.
\<close>

lemma decode_eci_short:
  assumes "length (if py_startswith s ''0x'' then drop 2 s else s) < 8"
  shows "decode_eci s = None"
proof -
  let ?c = "py_remove2 CHR ''0'' CHR ''x'' s"
  have "length ?c < 8"
  proof (cases "py_startswith s ''0x''")
    case True
    then obtain t where s: "s = CHR ''0'' # CHR ''x'' # t"
      by (cases s; cases "tl s") (auto simp: py_startswith_def)
    have "length (py_remove2 CHR ''0'' CHR ''x'' t) \<le> length t"
      by (rule length_py_remove2)
    with assms True s show ?thesis by simp
  next
    case False
    have "length ?c \<le> length s" by (rule length_py_remove2)
    with assms False show ?thesis by simp
  qed
  moreover have "length (py_remove2 CHR ''0'' CHR ''X'' ?c) \<le> length ?c"
    by (rule length_py_remove2)
  ultimately show ?thesis by (simp add: decode_eci_def)
qed

text \<open>
  C9 at the input \<open>0x1234\<close>, which has four characters after its prefix:
  \<open>decode_eci\<close> answers \<open>None\<close>, and \<open>decode_enodeb_cellid\<close> returns station 18 and
  sector 52 instead of failing. At the bare prefix \<open>0x\<close> it raises \<open>ValueError\<close>.
\<close>

theorem decode_enodeb_cellid_short_input:
  "length (drop 2 ''0x1234'') < 8
   \<and> decode_eci ''0x1234'' = None
   \<and> decode_enodeb_cellid ''0x1234'' = Inr (18, 52)
   \<and> decode_enodeb_cellid ''0x'' = Inl ValueError"
  by code_simp

subsection \<open>Progress tracker\<close>

lemma load_lines_bad_position:
  "l \<in> set ls \<Longrightarrow> py_split CHR ''|'' (py_strip l) = [k, p] \<Longrightarrow> py_int 10 p = None
   \<Longrightarrow> load_lines ls m = None"
proof (induction ls arbitrary: m)
  case Nil
  then show ?case by simp
next
  case (Cons a ls)
  show ?case
  proof (cases "a = l")
    case True
    with Cons.prems show ?thesis by simp
  next
    case False
    with Cons.prems have "l \<in> set ls" by simp
    then have "load_lines ls m' = None" for m'
      using Cons.IH Cons.prems(2,3) by blast
    then show ?thesis
      by (simp split: list.splits option.splits)
  qed
qed

lemma load_lines_skip:
  "length (py_split CHR ''|'' (py_strip l)) \<noteq> 2
   \<Longrightarrow> load_lines (xs @ l # ys) m = load_lines (xs @ ys) m"
proof (induction xs arbitrary: m)
  case Nil
  then show ?case by (auto split: list.splits)
next
  case (Cons a xs)
  then show ?case by (simp split: list.splits option.splits)
qed

text \<open>
  C10: \<open>load\<close> is all-or-nothing on a malformed position: if some line of the checkpoint
  file splits into two fields and the second is not a valid integer, \<open>load\<close> returns the
  empty mapping, whatever the other lines hold; a line that does not split into exactly
  two fields is passed over, and \<open>load\<close> returns what it returns without that line.
\<close>

theorem load_all_or_nothing:
  "(l \<in> set ls \<and> py_split CHR ''|'' (py_strip l) = [k, p] \<and> py_int 10 p = None
      \<longrightarrow> load (Some ls) = Map.empty)
   \<and> (length (py_split CHR ''|'' (py_strip l')) \<noteq> 2
      \<longrightarrow> load (Some (xs @ l' # ys)) = load (Some (xs @ ys)))"
  by (auto simp: load_def load_lines_bad_position load_lines_skip)

theorem load_all_or_nothing_witness:
  "load (Some [''a|12'' @ [CHR 0x0A], ''b|1x'' @ [CHR 0x0A]]) = Map.empty
   \<and> load (Some [''a|12'' @ [CHR 0x0A], ''b|3|4'' @ [CHR 0x0A]])
       = load (Some [''a|12'' @ [CHR 0x0A]])
   \<and> load (Some [''a|12'' @ [CHR 0x0A]]) ''a'' = Some 12"
proof -
  have s1: "py_split CHR ''|'' (py_strip (''b|1x'' @ [CHR 0x0A])) = [''b'', ''1x'']"
    by code_simp
  have s2: "py_int 10 ''1x'' = None"
    by code_simp
  have s3: "length (py_split CHR ''|'' (py_strip (''b|3|4'' @ [CHR 0x0A]))) \<noteq> 2"
    by code_simp
  have s4: "load (Some [''a|12'' @ [CHR 0x0A]]) ''a'' = Some 12"
    by code_simp
  from load_all_or_nothing
         [of "''b|1x'' @ [CHR 0x0A]" "[''a|12'' @ [CHR 0x0A], ''b|1x'' @ [CHR 0x0A]]"
             "''b''" "''1x''" "''b|3|4'' @ [CHR 0x0A]" "[''a|12'' @ [CHR 0x0A]]" "[]"]
       s1 s2 s3 s4
  show ?thesis by simp
qed

subsection \<open>Batch persistence\<close>

lemma backfill_upsert_append:
  "backfill_upsert now tbl (xs @ ys) = backfill_upsert now (backfill_upsert now tbl xs) ys"
  by (induction xs arbitrary: tbl) auto

lemma backfill_upsert_other:
  "m \<notin> msisdn ` set ys \<Longrightarrow> backfill_upsert now tbl ys m = tbl m"
  by (induction ys arbitrary: tbl) auto

lemma backfill_upsert_last:
  "msisdn r \<notin> msisdn ` set ys
   \<Longrightarrow> backfill_upsert now tbl (xs @ r # ys) (msisdn r) = Some (backfill_row now r)"
  by (simp add: backfill_upsert_append backfill_upsert_other)

lemma watcher_upsert_not_newer:
  "tbl m = Some old
   \<Longrightarrow> \<forall>r \<in> set records. p_msisdn r = Some m \<longrightarrow> get_timestamp now r \<le> l_timestamp old
   \<Longrightarrow> watcher_upsert now tbl records = Some tbl'
   \<Longrightarrow> tbl' m = Some old"
proof (induction records arbitrary: tbl)
  case Nil
  then show ?case by simp
next
  case (Cons r rs)
  from Cons.prems(3) obtain k where k: "p_msisdn r = Some k"
    by (cases "p_msisdn r") auto
  let ?t = "(case tbl k of
               None \<Rightarrow> tbl(k \<mapsto> watcher_row now r)
             | Some old \<Rightarrow>
                 if l_timestamp old < l_timestamp (watcher_row now r)
                 then tbl(k \<mapsto> watcher_update old (watcher_row now r))
                 else tbl)"
  from Cons.prems(3) k have run: "watcher_upsert now ?t rs = Some tbl'" by simp
  have keep: "?t m = Some old"
  proof (cases "k = m")
    case True
    with Cons.prems(2) k have "get_timestamp now r \<le> l_timestamp old" by simp
    with True Cons.prems(1) show ?thesis by (simp add: watcher_row_def)
  next
    case False
    with Cons.prems(1) show ?thesis by (simp split: option.splits)
  qed
  from Cons.prems(2)
  have "\<forall>r \<in> set rs. p_msisdn r = Some m \<longrightarrow> get_timestamp now r \<le> l_timestamp old"
    by simp
  with Cons.IH [OF keep _ run] show ?case by blast
qed

lemma insert_records_not_newer:
  assumes "latest_traces d m = Some old"
    and "\<forall>r \<in> set records. p_msisdn r = Some m \<longrightarrow> get_timestamp now r \<le> l_timestamp old"
  shows "latest_traces (snd (insert_records fault now d records)) m = Some old"
proof (cases "watcher_upsert now (latest_traces d) records")
  case None
  with assms(1) show ?thesis by (simp add: insert_records_def)
next
  case (Some tbl')
  from watcher_upsert_not_newer [OF assms(1) assms(2) Some] have "tbl' m = Some old" .
  with Some assms(1) show ?thesis by (simp add: insert_records_def Let_def)
qed

lemma paginate_single: "paginate [x] = [[x]]"
  by (simp add: paginate.simps)

text \<open>
  C2, as stated, does not hold on the path of \<open>radius_parser.process_file\<close>: with a file
  of one record, when the history insert fails the row of \<open>latest_traces\<close> is written and
  committed and \<open>radius_matches\<close> stays empty; when the upsert fails the history row is
  written and \<open>latest_traces\<close> stays empty.
\<close>

theorem process_file_not_transactional:
  "latest_traces (snd (process_file 1000 False 500 [PgOk, PgStatementFails] empty_db [sample_parsed]))
     ''5926001234'' \<noteq> None
   \<and> radius_matches (snd (process_file 1000 False 500 [PgOk, PgStatementFails] empty_db [sample_parsed]))
     = []
   \<and> latest_traces (snd (process_file 1000 False 500 [PgStatementFails, PgOk] empty_db [sample_parsed]))
     ''5926001234'' = None
   \<and> radius_matches (snd (process_file 1000 False 500 [PgStatementFails, PgOk] empty_db [sample_parsed]))
     \<noteq> []"
  by (simp add: process_file_def persist_batch_def upsert_latest_traces_def
        insert_radius_history_def paginate_single parser_upsert_page_def empty_db_def
        sample_parsed_def)

text \<open>
  C2, amended: \<open>bulk_insert_records\<close> of the backfill performs the history insert and the
  latest-state upsert in one transaction: without a fault both tables are updated, and with
  a fault at any step neither is and the exception is raised. On the path of
  \<open>radius_parser.process_file\<close> the two writes of a batch are two transactions, the
  latest-state upsert first: what \<open>latest_traces\<close> holds afterwards is what
  \<open>upsert_latest_traces\<close> alone leaves, what \<open>radius_matches\<close> holds is what
  \<open>insert_radius_history\<close> alone leaves, and the history insert is not run when the upsert
  has raised.
\<close>

theorem batch_writes_transactional:
  "bulk_insert_records fault now d records =
     (if records = [] then (Inr 0, d)
      else if fault = NoFault then
        (Inr (int (length records)),
         d\<lparr>radius_matches := insert_history (radius_matches d) (map matches_data records),
           latest_traces := backfill_upsert now (latest_traces d) records\<rparr>)
      else (Inl DatabaseError, d))
   \<and> latest_traces (snd (persist_batch f1 f2 now pd batch))
       = latest_traces (snd (upsert_latest_traces f1 now pd batch))
   \<and> radius_matches (snd (persist_batch f1 f2 now pd batch))
       = (if batch \<noteq> [] \<and> f1 = PgConnectionLost then radius_matches pd
          else radius_matches (snd (insert_radius_history f2 now pd batch)))"
proof -
  have "bulk_insert_records fault now d records =
     (if records = [] then (Inr 0, d)
      else if fault = NoFault then
        (Inr (int (length records)),
         d\<lparr>radius_matches := insert_history (radius_matches d) (map matches_data records),
           latest_traces := backfill_upsert now (latest_traces d) records\<rparr>)
      else (Inl DatabaseError, d))"
    by (cases fault) (simp_all add: bulk_insert_records_def Let_def)
  moreover have "latest_traces (snd (persist_batch f1 f2 now pd batch))
       = latest_traces (snd (upsert_latest_traces f1 now pd batch))"
    by (auto simp: persist_batch_def upsert_latest_traces_def insert_radius_history_def
             split: if_splits option.splits sum.splits prod.splits)
  moreover have "radius_matches (snd (persist_batch f1 f2 now pd batch))
       = (if batch \<noteq> [] \<and> f1 = PgConnectionLost then radius_matches pd
          else radius_matches (snd (insert_radius_history f2 now pd batch)))"
    by (auto simp: persist_batch_def upsert_latest_traces_def insert_radius_history_def
             split: if_splits option.splits sum.splits prod.splits)
  ultimately show ?thesis by blast
qed

theorem batch_writes_transactional_witness:
  "bulk_insert_records CommitFails 500 empty_db [sample_record] = (Inl DatabaseError, empty_db)
   \<and> fst (bulk_insert_records NoFault 500 empty_db [sample_record]) = Inr 1
   \<and> length (radius_matches (snd (bulk_insert_records NoFault 500 empty_db [sample_record]))) = 1
   \<and> latest_traces (snd (bulk_insert_records NoFault 500 empty_db [sample_record])) ''5926001234''
       = Some (backfill_row 500 sample_record)
   \<and> radius_matches (snd (persist_batch PgConnectionLost PgOk 500 empty_db [sample_parsed])) = []"
  using batch_writes_transactional
          [where fault = CommitFails and now = 500 and d = empty_db and records = "[sample_record]"
             and ?f1.0 = PgConnectionLost and ?f2.0 = PgOk and pd = empty_db
             and batch = "[sample_parsed]"]
        batch_writes_transactional
          [where fault = NoFault and now = 500 and d = empty_db and records = "[sample_record]"
             and ?f1.0 = PgOk and ?f2.0 = PgOk and pd = empty_db and batch = "[sample_parsed]"]
  by (simp add: empty_db_def sample_record_def history_key_def)

text \<open>
  C3, as stated, does not hold for \<open>RadiusWatcher.insert_records\<close>: the subscriber has a
  row with event time 200 that the backfill wrote; a record with event time 100 is
  persisted without a fault, and the row stays as it was, with its source tag
  \<open>backfill\<close>.
\<close>

theorem insert_records_keeps_newer_row:
  "fst (insert_records PgOk 500 stored_db [sample_parsed]) = 1
   \<and> latest_traces (snd (insert_records PgOk 500 stored_db [sample_parsed])) ''5926001234''
       = Some stored_row
   \<and> l_source stored_row = ''backfill''"
  by (simp add: insert_records_def stored_db_def empty_db_def sample_parsed_def watcher_row_def
        get_timestamp_def stored_row_def Let_def)

text \<open>
  C3, amended: a batch that \<open>bulk_insert_records\<close> of the backfill persists leaves, for
  every subscriber of the batch, the row of the last record of that subscriber: every
  column is the record's, the source tag is \<open>backfill\<close> and the update timestamp is the
  current time, whatever row was stored before and whatever its event time.
  \<open>RadiusWatcher.insert_records\<close> overwrites a stored row only when the stored event time
  is older than the incoming one: then it assigns imsi, enodeb_id, cell_id, timestamp and
  the source tag \<open>radius\<close> and keeps the other columns, the update timestamp among them;
  a batch whose records for the subscriber are not newer than the stored row leaves the row
  as it was.
\<close>

theorem latest_upsert_policy:
  "(msisdn r \<notin> msisdn ` set ys \<longrightarrow>
      latest_traces (snd (bulk_insert_records NoFault now d (xs @ r # ys))) (msisdn r)
        = Some \<lparr>l_imsi = imsi r, l_enodeb_id = enodeb_id r, l_cell_id = cell_id r,
                l_tower_name = Some (tower_name r), l_lat = Some (lat r), l_lon = Some (lon r),
                l_timestamp = timestamp r, l_source = ''backfill'',
                l_device_model = Some (device_model r), l_updated_at = now\<rparr>)
   \<and> (latest_traces wd m = Some old \<and> p_msisdn p = Some m \<longrightarrow>
      latest_traces (snd (insert_records PgOk now wd [p])) m
        = Some (if l_timestamp old < get_timestamp now p
                then old\<lparr>l_imsi := get_or_empty (p_imsi p), l_enodeb_id := str_get (p_enodeb_id p),
                         l_cell_id := str_get (p_cell_id p),
                         l_timestamp := get_timestamp now p, l_source := ''radius''\<rparr>
                else old))
   \<and> (latest_traces wd m = Some old
        \<and> (\<forall>q \<in> set ps. p_msisdn q = Some m \<longrightarrow> get_timestamp now q \<le> l_timestamp old) \<longrightarrow>
      latest_traces (snd (insert_records fault now wd ps)) m = Some old)"
proof -
  have "msisdn r \<notin> msisdn ` set ys \<Longrightarrow>
      latest_traces (snd (bulk_insert_records NoFault now d (xs @ r # ys))) (msisdn r)
        = Some (backfill_row now r)"
    by (simp add: bulk_insert_records_def Let_def backfill_upsert_last)
  moreover have "latest_traces wd m = Some old \<and> p_msisdn p = Some m \<Longrightarrow>
      latest_traces (snd (insert_records PgOk now wd [p])) m
        = Some (if l_timestamp old < get_timestamp now p
                then watcher_update old (watcher_row now p) else old)"
    by (simp add: insert_records_def Let_def watcher_row_def)
  ultimately show ?thesis
    using insert_records_not_newer [of wd m old ps now fault]
    by (simp add: backfill_row_def watcher_update_def watcher_row_def)
qed

theorem latest_upsert_policy_witness:
  "latest_traces (snd (bulk_insert_records NoFault 500 empty_db [sample_record])) ''5926001234''
     = Some (backfill_row 500 sample_record)
   \<and> latest_traces (snd (insert_records PgOk 500 stored_db [sample_parsed])) ''5926001234''
     = Some stored_row
   \<and> latest_traces (snd (insert_records PgOk 500 stored_db [sample_parsed\<lparr>p_timestamp := Some 300\<rparr>]))
       ''5926001234''
     = Some (stored_row\<lparr>l_enodeb_id := ''4039'', l_cell_id := ''14'', l_timestamp := 300,
                         l_source := ''radius''\<rparr>)"
proof -
  have e1: "str_get (Some 4039) = ''4039''" "str_get (Some 14) = ''14''"
    by (simp_all add: str_get_def py_str_int_def nat_digits.simps)
  have h1: "msisdn sample_record \<notin> msisdn ` set []" by simp
  have h2: "latest_traces stored_db ''5926001234'' = Some stored_row"
    by (simp add: stored_db_def)
  have h3: "p_msisdn sample_parsed = Some ''5926001234''"
    "p_msisdn (sample_parsed\<lparr>p_timestamp := Some 300\<rparr>) = Some ''5926001234''"
    by (simp_all add: sample_parsed_def)
  have h4: "\<forall>q \<in> set [sample_parsed]. p_msisdn q = Some ''5926001234''
              \<longrightarrow> get_timestamp 500 q \<le> l_timestamp stored_row"
    by (simp add: sample_parsed_def get_timestamp_def stored_row_def)
  from latest_upsert_policy
         [of sample_record "[]" 500 empty_db "[]" stored_db "''5926001234''" stored_row
             "sample_parsed\<lparr>p_timestamp := Some 300\<rparr>" "[sample_parsed]" PgOk]
       h1 h2 h3 h4 e1
  show ?thesis
    by (simp add: sample_record_def backfill_row_def sample_parsed_def get_timestamp_def
                  stored_row_def get_or_empty_def)
qed

subsection \<open>File processing of the backfill\<close>

lemma build_record_missing:
  "get_strip entry ''Calling-Station-Id'' = [] \<or> get_strip entry ''3GPP-User-Location-Info'' = []
     \<or> get_strip entry ''Event-Timestamp'' = []
   \<Longrightarrow> build_record e entry = None"
  by (auto simp: build_record_def Let_def)

lemma flush_batch_effect:
  assumes "flush_batch e f batch inserted w = (r, w')"
  shows "w_disk w' = w_disk w \<and> w_lock w' = w_lock w \<and> w_progress w' = w_progress w
         \<and> (\<exists>evs. w_trace w' = w_trace w @ evs \<and> (\<forall>ev \<in> set evs. batch_event ev))
         \<and> (\<forall>n. r = Inr n \<longrightarrow> n = inserted + int (length batch))"
  using assms
  by (auto simp: flush_batch_def pop_db_fault_def emit_def bulk_insert_records_def Let_def batch_event_def
           split: list.splits prod.splits sum.splits if_splits)

lemma tracker_save_effect:
  "w_disk (tracker_save f p w) = w_disk w \<and> w_lock (tracker_save f p w) = w_lock w
   \<and> w_db (tracker_save f p w) = w_db w
   \<and> (\<exists>evs. w_trace (tracker_save f p w) = w_trace w @ evs \<and> (\<forall>ev \<in> set evs. batch_event ev))"
  by (auto simp: tracker_save_def pop_fs_fault_def emit_def batch_event_def split: list.splits)

lemma process_entries_effect:
  "process_entries e f entries n batch processed inserted w = (r, w')
   \<Longrightarrow> w_disk w' = w_disk w \<and> w_lock w' = w_lock w
       \<and> (\<exists>evs. w_trace w' = w_trace w @ evs \<and> (\<forall>ev \<in> set evs. batch_event ev))"
proof (induction entries arbitrary: n batch processed inserted w)
  case Nil
  then show ?case by auto
next
  case (Cons l ls)
  show ?case
  proof (cases "build_record e (parse_entry l)")
    case None
    with Cons.prems have "process_entries e f ls (Suc n) batch processed inserted w = (r, w')"
      by simp
    from Cons.IH [OF this] show ?thesis .
  next
    case (Some rec)
    show ?thesis
    proof (cases "length (batch @ [rec]) \<ge> BATCH_SIZE e")
      case False
      with Some Cons.prems
      have "process_entries e f ls (Suc n) (batch @ [rec]) (processed + 1) inserted w = (r, w')"
        by (simp add: Let_def)
      from Cons.IH [OF this] show ?thesis .
    next
      case True
      obtain fr w1 where fl: "flush_batch e f (batch @ [rec]) inserted w = (fr, w1)"
        by (cases "flush_batch e f (batch @ [rec]) inserted w")
      note fe = flush_batch_effect [OF fl]
      show ?thesis
      proof (cases fr)
        case (Inl err)
        with Some True fl Cons.prems have "w' = w1" by (simp add: Let_def)
        with fe show ?thesis by simp
      next
        case (Inr ins)
        let ?w2 = "tracker_save f (int n + 1) w1"
        from Inr Some True fl Cons.prems
        have run: "process_entries e f ls (Suc n) [] (processed + 1) ins ?w2 = (r, w')"
          by (simp add: Let_def)
        note ih = Cons.IH [OF run]
        note te = tracker_save_effect [of f "int n + 1" w1]
        from fe obtain evs1 where e1: "w_trace w1 = w_trace w @ evs1" "\<forall>ev \<in> set evs1. batch_event ev"
          by blast
        from te obtain evs2 where e2: "w_trace ?w2 = w_trace w1 @ evs2" "\<forall>ev \<in> set evs2. batch_event ev"
          by blast
        from ih obtain evs3 where e3: "w_trace w' = w_trace ?w2 @ evs3" "\<forall>ev \<in> set evs3. batch_event ev"
          by blast
        have "w_trace w' = w_trace w @ (evs1 @ evs2 @ evs3)"
          using e1 e2 e3 by simp
        moreover have "\<forall>ev \<in> set (evs1 @ evs2 @ evs3). batch_event ev"
          using e1 e2 e3 by auto
        ultimately have "\<exists>evs. w_trace w' = w_trace w @ evs \<and> (\<forall>ev \<in> set evs. batch_event ev)"
          by blast
        with ih te fe show ?thesis by simp
      qed
    qed
  qed
qed

lemma audit_insert_effect:
  assumes "audit_insert e f p i w = (r, w')"
  shows "w_disk w' = w_disk w \<and> w_lock w' = w_lock w \<and> w_progress w' = w_progress w
     \<and> (case r of Inl err \<Rightarrow> w_trace w' = w_trace w \<and> w_db w' = w_db w
                 | Inr u \<Rightarrow> w_trace w' = w_trace w @ [AuditCommitted f]
                           \<and> backfill_audit (w_db w') f \<noteq> None)"
  using assms
  by (auto simp: audit_insert_def pop_db_fault_def emit_def Let_def
           split: list.splits if_splits option.splits)

lemma unlink_log_effect:
  "w_db (unlink_log f w) = w_db w \<and> w_lock (unlink_log f w) = w_lock w
   \<and> w_progress (unlink_log f w) = w_progress w
   \<and> ((w_trace (unlink_log f w) = w_trace w \<and> w_disk (unlink_log f w) = w_disk w)
      \<or> (w_trace (unlink_log f w) = w_trace w @ [FileDeleted f]
         \<and> w_disk (unlink_log f w) = (w_disk w)(f := None)))"
  by (auto simp: unlink_log_def pop_fs_fault_def emit_def split: list.splits)

lemma batch_event_simps [simp]:
  "\<not> batch_event (FileDeleted g)" "\<not> batch_event (AuditCommitted g)" "\<not> batch_event (Started g n)"
  by (simp_all add: batch_event_def)

text \<open>
  C7: in every execution of \<open>process_log_file\<close> the source file is deleted only after
  the audit insert for that file has been committed: in the trace of the call the deletion
  of a file is the deletion of the processed file and directly follows the commit of its
  audit insert, the call has then returned normally and the audit table has a row for the
  file; when the call raises (the audit write among the causes) no file on disk has
  changed, and the disk changes only by that deletion.
\<close>

theorem delete_after_audit:
  assumes run: "process_log_file e f w = (r, w')"
  shows "\<exists>evs. w_trace w' = w_trace w @ evs
     \<and> (FileDeleted g \<in> set evs \<longrightarrow>
           g = f \<and> (\<exists>pre. evs = pre @ [AuditCommitted f, FileDeleted f])
           \<and> (\<exists>p i. r = Inr (p, i)) \<and> backfill_audit (w_db w') f \<noteq> None)
     \<and> ((\<exists>err. r = Inl err) \<longrightarrow> w_disk w' = w_disk w)
     \<and> (w_disk w' \<noteq> w_disk w \<longrightarrow> FileDeleted f \<in> set evs)"
proof -
  let ?rp = "case load (w_progress w) f of None \<Rightarrow> 0 | Some p \<Rightarrow> p"
  let ?w0 = "emit (Started f ?rp) w"
  have t0: "w_trace ?w0 = w_trace w @ [Started f ?rp]" and d0: "w_disk ?w0 = w_disk w"
    by (simp_all add: emit_def)
  show ?thesis
  proof (cases "w_disk ?w0 f")
    case None
    with run have "r = Inl OSError" "w' = ?w0"
      by (simp_all add: process_log_file_def Let_def)
    with t0 d0 show ?thesis by auto
  next
    case (Some lines)
    obtain pr w1 where pe: "process_entries e f (read_log_entries lines) 0 [] 0 0 ?w0 = (pr, w1)"
      by (cases "process_entries e f (read_log_entries lines) 0 [] 0 0 ?w0")
    from process_entries_effect [OF pe] obtain evs1
      where d1: "w_disk w1 = w_disk ?w0" and t1: "w_trace w1 = w_trace ?w0 @ evs1"
        and b1: "\<forall>ev \<in> set evs1. batch_event ev"
      by blast
    show ?thesis
    proof (cases pr)
      case (Inl err)
      with run Some pe have "r = Inl err" "w' = w1"
        by (simp_all add: process_log_file_def Let_def)
      with t0 d0 t1 d1 b1 show ?thesis by auto
    next
      case (Inr res)
      obtain batch processed inserted where res: "res = (batch, processed, inserted)"
        by (cases res)
      let ?fl = "if batch \<noteq> [] then flush_batch e f batch inserted w1 else (Inr inserted, w1)"
      obtain fr w2 where fl: "?fl = (fr, w2)" by (cases ?fl)
      have "\<exists>evs. w_disk w2 = w_disk w1 \<and> w_trace w2 = w_trace w1 @ evs \<and> (\<forall>ev \<in> set evs. batch_event ev)"
      proof (cases "batch \<noteq> []")
        case True
        with fl have "flush_batch e f batch inserted w1 = (fr, w2)" by simp
        from flush_batch_effect [OF this] show ?thesis by blast
      next
        case False
        with fl show ?thesis by auto
      qed
      then obtain evs2 where d2: "w_disk w2 = w_disk w1" and t2: "w_trace w2 = w_trace w1 @ evs2"
        and b2: "\<forall>ev \<in> set evs2. batch_event ev"
        by blast
      show ?thesis
      proof (cases fr)
        case (Inl err)
        with run Some pe Inr res fl have "r = Inl err" "w' = w2"
          by (simp_all add: process_log_file_def Let_def)
        with t0 d0 t1 d1 b1 t2 d2 b2 show ?thesis by auto
      next
        case ins: (Inr ins)
        obtain ar w3 where au: "audit_insert e f processed ins w2 = (ar, w3)"
          by (cases "audit_insert e f processed ins w2")
        note ae = audit_insert_effect [OF au]
        show ?thesis
        proof (cases ar)
          case (Inl err)
          with run Some pe Inr res fl ins au have "r = Inl err" "w' = w3"
            by (simp_all add: process_log_file_def Let_def)
          with ae Inl t0 d0 t1 d1 b1 t2 d2 b2 show ?thesis by auto
        next
          case au_ok: (Inr u)
          with run Some pe Inr res fl ins au
          have rr: "r = Inr (processed, ins)" and ww: "w' = unlink_log f w3"
            by (simp_all add: process_log_file_def Let_def)
          from ae au_ok have t3: "w_trace w3 = w_trace w2 @ [AuditCommitted f]"
            and a3: "backfill_audit (w_db w3) f \<noteq> None" and d3: "w_disk w3 = w_disk w2"
            by simp_all
          note ue = unlink_log_effect [of f w3]
          from ue consider
              (kept) "w_trace w' = w_trace w3" "w_disk w' = w_disk w3"
            | (gone) "w_trace w' = w_trace w3 @ [FileDeleted f]" "w_disk w' = (w_disk w3)(f := None)"
            using ww by auto
          then show ?thesis
          proof cases
            case kept
            have "w_trace w' = w_trace w @ ([Started f ?rp] @ evs1 @ evs2 @ [AuditCommitted f])"
              using kept t0 t1 t2 t3 by simp
            moreover have "FileDeleted g \<notin> set ([Started f ?rp] @ evs1 @ evs2 @ [AuditCommitted f])"
              using b1 b2 by auto
            moreover have "w_disk w' = w_disk w"
              using kept d0 d1 d2 d3 by simp
            ultimately show ?thesis using rr by blast
          next
            case gone
            let ?pre = "[Started f ?rp] @ evs1 @ evs2"
            have tr: "w_trace w' = w_trace w @ (?pre @ [AuditCommitted f, FileDeleted f])"
              using gone t0 t1 t2 t3 by simp
            have only: "FileDeleted g \<in> set (?pre @ [AuditCommitted f, FileDeleted f]) \<longrightarrow> g = f"
              using b1 b2 by auto
            have db: "backfill_audit (w_db w') f \<noteq> None"
              using a3 ww ue by simp
            have "FileDeleted f \<in> set (?pre @ [AuditCommitted f, FileDeleted f])" by simp
            with tr only db rr show ?thesis by blast
          qed
        qed
      qed
    qed
  qed
qed

lemma process_entries_count:
  "process_entries e f entries n batch processed inserted w = (Inr (batch', processed', inserted'), w')
   \<Longrightarrow> processed' = processed + int (length (filter (\<lambda>l. build_record e (parse_entry l) \<noteq> None) entries))
     \<and> inserted' + int (length batch')
         = inserted + int (length batch)
           + int (length (filter (\<lambda>l. build_record e (parse_entry l) \<noteq> None) entries))"
proof (induction entries arbitrary: n batch processed inserted w)
  case Nil
  then show ?case by auto
next
  case (Cons l ls)
  show ?case
  proof (cases "build_record e (parse_entry l)")
    case None
    with Cons.prems
    have "process_entries e f ls (Suc n) batch processed inserted w = (Inr (batch', processed', inserted'), w')"
      by simp
    from Cons.IH [OF this] None show ?thesis by simp
  next
    case (Some rec)
    show ?thesis
    proof (cases "length (batch @ [rec]) \<ge> BATCH_SIZE e")
      case False
      with Some Cons.prems
      have "process_entries e f ls (Suc n) (batch @ [rec]) (processed + 1) inserted w
              = (Inr (batch', processed', inserted'), w')"
        by (simp add: Let_def)
      from Cons.IH [OF this] Some show ?thesis by simp
    next
      case True
      obtain fr w1 where fl: "flush_batch e f (batch @ [rec]) inserted w = (fr, w1)"
        by (cases "flush_batch e f (batch @ [rec]) inserted w")
      show ?thesis
      proof (cases fr)
        case (Inl err)
        with Some True fl Cons.prems show ?thesis by (simp add: Let_def)
      next
        case (Inr ins)
        with flush_batch_effect [OF fl] have ins: "ins = inserted + int (length (batch @ [rec]))"
          by simp
        from Inr Some True fl Cons.prems
        have "process_entries e f ls (Suc n) [] (processed + 1) ins (tracker_save f (int n + 1) w1)
                = (Inr (batch', processed', inserted'), w')"
          by (simp add: Let_def)
        from Cons.IH [OF this] Some ins show ?thesis by simp
      qed
    qed
  qed
qed

text \<open>
  C8, amended: an entry in which the subscriber id, the location code or the raw timestamp
  is empty after trimming gives no record (\<open>build_record\<close> returns \<open>None\<close>), and such
  an entry increments neither counter of \<open>process_log_file\<close>: the \<open>processed\<close> count
  that a call returns is the number of entries of the file for which \<open>build_record\<close>
  gives a record, and the \<open>inserted\<close> count is the same number.
\<close>

theorem rejected_entries_not_counted:
  "(get_strip entry ''Calling-Station-Id'' = [] \<or> get_strip entry ''3GPP-User-Location-Info'' = []
      \<or> get_strip entry ''Event-Timestamp'' = [] \<longrightarrow> build_record e entry = None)
   \<and> (process_log_file e f w = (Inr (p, i), w') \<and> w_disk w f = Some lines \<longrightarrow>
        p = int (length (filter (\<lambda>l. build_record e (parse_entry l) \<noteq> None) (read_log_entries lines)))
        \<and> i = p)"
proof -
  have "p = int (length (filter (\<lambda>l. build_record e (parse_entry l) \<noteq> None) (read_log_entries lines)))
        \<and> i = p"
    if run: "process_log_file e f w = (Inr (p, i), w')" and disk: "w_disk w f = Some lines"
  proof -
    let ?rp = "case load (w_progress w) f of None \<Rightarrow> 0 | Some p \<Rightarrow> p"
    let ?w0 = "emit (Started f ?rp) w"
    have d0: "w_disk ?w0 f = Some lines" using disk by (simp add: emit_def)
    obtain pr w1 where pe: "process_entries e f (read_log_entries lines) 0 [] 0 0 ?w0 = (pr, w1)"
      by (cases "process_entries e f (read_log_entries lines) 0 [] 0 0 ?w0")
    from run d0 pe obtain batch processed inserted where pr: "pr = Inr (batch, processed, inserted)"
      by (cases pr) (auto simp: process_log_file_def Let_def)
    note cnt = process_entries_count [OF pe [unfolded pr]]
    let ?fl = "if batch \<noteq> [] then flush_batch e f batch inserted w1 else (Inr inserted, w1)"
    obtain fr w2 where fl: "?fl = (fr, w2)" by (cases ?fl)
    from run d0 pe pr fl obtain ins where fr: "fr = Inr ins"
      by (cases fr) (auto simp: process_log_file_def Let_def)
    have ins: "ins = inserted + int (length batch)"
    proof (cases "batch \<noteq> []")
      case True
      with fl have "flush_batch e f batch inserted w1 = (fr, w2)" by simp
      from flush_batch_effect [OF this] fr show ?thesis by simp
    next
      case False
      with fl fr show ?thesis by simp
    qed
    from run d0 pe pr fl fr have "p = processed \<and> i = ins"
      by (auto simp: process_log_file_def Let_def split: prod.splits sum.splits)
    with cnt ins show ?thesis by simp
  qed
  then show ?thesis
    by (auto simp: build_record_def Let_def)
qed

subsection \<open>Sample runs of the backfill\<close>

lemmas strip_eval = py_strip_def py_isspace_def attribute_line_def quoted_def Let_def

lemma entries_three_blocks:
  "read_log_entries three_blocks
     = [stripped_block ''5926001234'', stripped_block ''5926005678'', stripped_block ''5926009999'']"
  by (simp add: read_log_entries_def three_blocks_def sample_block_def stripped_block_def strip_eval)

lemma entries_two_blocks:
  "read_log_entries two_blocks = [stripped_anonymous, stripped_block ''5926001234'']"
  by (simp add: read_log_entries_def two_blocks_def sample_block_def anonymous_block_def
        stripped_block_def stripped_anonymous_def strip_eval)

lemma entries_one_block:
  "read_log_entries (sample_block ''5926001234'') = [stripped_block ''5926001234'']"
  by (simp add: read_log_entries_def sample_block_def stripped_block_def strip_eval)

lemma parse_stripped_block:
  "parse_entry (stripped_block ms) =
     [''Calling-Station-Id'' \<mapsto> ms,
      ''3GPP-User-Location-Info'' \<mapsto> ''0x823708401b59370840000fc70e'',
      ''Event-Timestamp'' \<mapsto> ''Jan 05 2025 14:00:00 UTC'']"
  by (simp add: parse_entry_def stripped_block_def match_line_def unquote_def py_startswith_def
       strip_eval)

lemma parse_stripped_anonymous:
  "parse_entry stripped_anonymous =
     [''3GPP-User-Location-Info'' \<mapsto> ''0x823708401b59370840000fc70e'',
      ''Event-Timestamp'' \<mapsto> ''Jan 05 2025 14:00:00 UTC'']"
  by (simp add: parse_entry_def stripped_anonymous_def match_line_def unquote_def py_startswith_def
       strip_eval)

lemma build_record_batch_size:
  "build_record (e\<lparr>BATCH_SIZE := n\<rparr>) entry = build_record e entry"
proof -
  have "process_timestamp (e\<lparr>BATCH_SIZE := n\<rparr>) = process_timestamp e"
    "process_location (e\<lparr>BATCH_SIZE := n\<rparr>) = process_location e"
    "lookup_device_model (e\<lparr>BATCH_SIZE := n\<rparr>) = lookup_device_model e"
    by (auto simp: process_timestamp_def process_location_def lookup_device_model_def fun_eq_iff
             split: option.splits)
  then show ?thesis by (simp add: build_record_def Let_def split: option.splits)
qed

lemma build_sample_env:
  assumes "py_strip ms = ms" "10 \<le> length ms"
  shows "build_record sample_env (parse_entry (stripped_block ms)) = Some (block_record ms)"
proof -
  from assms(2) have "ms \<noteq> []" by auto
  with assms show ?thesis
    by (simp add: parse_stripped_block build_record_def get_strip_def sample_env_def
        process_timestamp_def process_location_def local_date_def block_record_def
        py_str_int_def nat_digits.simps Let_def)
       (simp add: py_strip_def py_isspace_def)
qed

lemma build_stripped_block:
  assumes "ms \<in> {''5926001234'', ''5926005678'', ''5926009999''}"
    and "e \<in> {sample_env, first_run_env, second_run_env}"
  shows "build_record e (parse_entry (stripped_block ms)) = Some (block_record ms)"
proof -
  from assms(1) have ms: "py_strip ms = ms" "10 \<le> length ms"
    by (auto simp: py_strip_def py_isspace_def)
  have "build_record second_run_env (parse_entry (stripped_block ms)) = Some (block_record ms)"
    using ms \<open>10 \<le> length ms\<close>
    by (simp add: second_run_env_def parse_stripped_block build_record_def get_strip_def sample_env_def
        process_timestamp_def process_location_def local_date_def block_record_def
        py_str_int_def nat_digits.simps Let_def)
       (auto simp add: py_strip_def py_isspace_def)
  with assms(2) build_sample_env [OF ms] show ?thesis
    by (auto simp: first_run_env_def build_record_batch_size)
qed

lemma build_stripped_anonymous:
  "build_record e (parse_entry stripped_anonymous) = None"
  by (simp add: parse_stripped_anonymous build_record_def get_strip_def py_strip_def Let_def)

lemmas run_eval =
  process_log_file_def flush_batch_def tracker_save_def audit_insert_def unlink_log_def
  pop_db_fault_def pop_fs_fault_def emit_def bulk_insert_records_def Let_def

lemma two_blocks_run:
  "fst (process_log_file sample_env sample_log (sample_world two_blocks)) = Inr (1, 1)"
  by (simp add: run_eval sample_world_def entries_two_blocks build_stripped_block
        build_stripped_anonymous load_def)

lemma one_block_run:
  "fst (process_log_file sample_env sample_log (sample_world (sample_block ''5926001234''))) = Inr (1, 1)
   \<and> w_trace (snd (process_log_file sample_env sample_log (sample_world (sample_block ''5926001234''))))
      = [Started sample_log 0, BatchCommitted sample_log 1, AuditCommitted sample_log,
         FileDeleted sample_log]
   \<and> w_disk (snd (process_log_file sample_env sample_log (sample_world (sample_block ''5926001234''))))
        sample_log = None"
  by (simp add: run_eval sample_world_def entries_one_block build_stripped_block load_def
        sample_env_def [THEN arg_cong, of BATCH_SIZE])

lemma one_block_audit_fails:
  "fst (process_log_file sample_env sample_log
          ((sample_world (sample_block ''5926001234''))\<lparr>w_db_faults := [NoFault, CommitFails]\<rparr>))
     = Inl DatabaseError
   \<and> w_disk (snd (process_log_file sample_env sample_log
          ((sample_world (sample_block ''5926001234''))\<lparr>w_db_faults := [NoFault, CommitFails]\<rparr>)))
        sample_log = Some (sample_block ''5926001234'')"
  by (simp add: run_eval sample_world_def entries_one_block build_stripped_block load_def
        sample_env_def [THEN arg_cong, of BATCH_SIZE])

text \<open>
  C8, as stated, does not hold for the counter: the file has two entries, the first without
  \<open>Calling-Station-Id\<close>; \<open>build_record\<close> rejects the first entry, and
  \<open>process_log_file\<close> returns 1 as the \<open>processed\<close> count, not 2.
\<close>

theorem rejected_entry_not_processed:
  "read_log_entries two_blocks = [stripped_anonymous, stripped_block ''5926001234'']
   \<and> get_strip (parse_entry stripped_anonymous) ''Calling-Station-Id'' = []
   \<and> build_record sample_env (parse_entry stripped_anonymous) = None
   \<and> fst (process_log_file sample_env sample_log (sample_world two_blocks)) = Inr (1, 1)"
proof -
  have "get_strip (parse_entry stripped_anonymous) ''Calling-Station-Id'' = []"
    by (simp add: parse_stripped_anonymous get_strip_def py_strip_def)
  with entries_two_blocks build_stripped_anonymous two_blocks_run show ?thesis
    by blast
qed

theorem rejected_entries_not_counted_witness:
  "get_strip (parse_entry stripped_anonymous) ''Calling-Station-Id'' = []
   \<and> build_record sample_env (parse_entry stripped_anonymous) = None
   \<and> w_disk (sample_world two_blocks) sample_log = Some two_blocks
   \<and> fst (process_log_file sample_env sample_log (sample_world two_blocks)) = Inr (1, 1)
   \<and> (1 :: int) = int (length (filter (\<lambda>l. build_record sample_env (parse_entry l) \<noteq> None)
                                  (read_log_entries two_blocks)))"
proof -
  let ?run = "process_log_file sample_env sample_log (sample_world two_blocks)"
  have h1: "get_strip (parse_entry stripped_anonymous) ''Calling-Station-Id'' = []"
    by (simp add: parse_stripped_anonymous get_strip_def py_strip_def)
  have h2: "?run = (Inr (1, 1), snd ?run)"
    using two_blocks_run by (cases ?run) simp
  have h3: "w_disk (sample_world two_blocks) sample_log = Some two_blocks"
    by (simp add: sample_world_def)
  from rejected_entries_not_counted
         [of "parse_entry stripped_anonymous" sample_env sample_log "sample_world two_blocks"
             1 1 "snd ?run" two_blocks]
       h1 h2 h3 two_blocks_run
  show ?thesis by simp
qed

theorem delete_after_audit_witness:
  "FileDeleted sample_log
     \<in> set (w_trace (snd (process_log_file sample_env sample_log
                            (sample_world (sample_block ''5926001234'')))))
   \<and> (\<exists>pre. w_trace (snd (process_log_file sample_env sample_log
                            (sample_world (sample_block ''5926001234''))))
             = pre @ [AuditCommitted sample_log, FileDeleted sample_log])
   \<and> backfill_audit (w_db (snd (process_log_file sample_env sample_log
                                  (sample_world (sample_block ''5926001234''))))) sample_log \<noteq> None
   \<and> fst (process_log_file sample_env sample_log
            ((sample_world (sample_block ''5926001234''))\<lparr>w_db_faults := [NoFault, CommitFails]\<rparr>))
       = Inl DatabaseError
   \<and> w_disk (snd (process_log_file sample_env sample_log
            ((sample_world (sample_block ''5926001234''))\<lparr>w_db_faults := [NoFault, CommitFails]\<rparr>)))
       = w_disk ((sample_world (sample_block ''5926001234''))\<lparr>w_db_faults := [NoFault, CommitFails]\<rparr>)"
proof -
  let ?w = "sample_world (sample_block ''5926001234'')"
  let ?ok = "process_log_file sample_env sample_log ?w"
  let ?v = "?w\<lparr>w_db_faults := [NoFault, CommitFails]\<rparr>"
  let ?bad = "process_log_file sample_env sample_log ?v"
  have t0: "w_trace ?w = []" by (simp add: sample_world_def)
  have del: "FileDeleted sample_log \<in> set (w_trace (snd ?ok))"
    using one_block_run by simp
  have bad: "fst ?bad = Inl DatabaseError"
    using one_block_audit_fails by simp
  have hok: "?ok = (fst ?ok, snd ?ok)" and hbad: "?bad = (fst ?bad, snd ?bad)"
    by simp_all
  from delete_after_audit [OF hok, of sample_log] t0 del
  have a: "(\<exists>pre. w_trace (snd ?ok) = pre @ [AuditCommitted sample_log, FileDeleted sample_log])
           \<and> backfill_audit (w_db (snd ?ok)) sample_log \<noteq> None"
    by auto
  from delete_after_audit [OF hbad, of sample_log] bad
  have b: "w_disk (snd ?bad) = w_disk ?v"
    by auto
  from del a bad b show ?thesis by blast
qed

subsection \<open>Resuming from a checkpoint\<close>

lemma batch_size_envs [simp]:
  "BATCH_SIZE first_run_env = 2" "BATCH_SIZE second_run_env = 2" "BATCH_SIZE sample_env = 1000"
  "clock first_run_env = 1736107200" "clock second_run_env = 1736110800"
  "runtime first_run_env = 3" "runtime second_run_env = 3"
  by (simp_all add: first_run_env_def second_run_env_def sample_env_def)

lemma history_key_block [simp]:
  "history_key (matches_data (block_record ms)) = (ms, ''4039'', ''14'', ''Jan 05 2025 10:00:00 GMT-04'')"
  by (simp add: history_key_def matches_data_def block_record_def)

lemma msisdn_block [simp]: "msisdn (block_record ms) = ms"
  by (simp add: block_record_def)

lemma first_run:
  "fst (process_log_file first_run_env sample_log interrupted_start) = Inl DatabaseError"
  "interrupted_world =
     \<lparr>w_db = \<lparr>radius_matches = [matches_data (block_record ''5926001234''),
                                 matches_data (block_record ''5926005678'')],
              latest_traces = [''5926001234'' \<mapsto> backfill_row 1736107200 (block_record ''5926001234''),
                               ''5926005678'' \<mapsto> backfill_row 1736107200 (block_record ''5926005678'')],
              backfill_audit = Map.empty\<rparr>,
      w_disk = [sample_log \<mapsto> three_blocks],
      w_progress = Some [sample_log @ ''|2\<newline>''],
      w_lock = False, w_db_faults = [], w_fs_faults = [],
      w_trace = [Started sample_log 0, BatchCommitted sample_log 2, CheckpointSaved sample_log 2]\<rparr>"
  by (simp_all add: interrupted_world_def interrupted_start_def run_eval sample_world_def
        entries_three_blocks build_stripped_block load_def empty_db_def save_def
        py_str_int_def nat_digits.simps)

lemma load_checkpoint:
  "load (Some [sample_log @ ''|2\<newline>'']) sample_log = Some 2"
  by (simp add: load_def sample_log_def py_strip_def py_isspace_def py_int_def py_startswith_def
        digit_value_def int_max_str_digits_def Let_def)

lemma second_run:
  "fst (process_log_file second_run_env sample_log interrupted_world) = Inr (3, 3)"
  "w_trace (snd (process_log_file second_run_env sample_log interrupted_world))
     = [Started sample_log 0, BatchCommitted sample_log 2, CheckpointSaved sample_log 2,
        Started sample_log 2, BatchCommitted sample_log 2, CheckpointSaved sample_log 2,
        BatchCommitted sample_log 1, AuditCommitted sample_log, FileDeleted sample_log]"
  "map_option l_updated_at
     (latest_traces (w_db (snd (process_log_file second_run_env sample_log interrupted_world)))
        ''5926001234'') = Some 1736110800"
  "map_option a_processed
     (backfill_audit (w_db (snd (process_log_file second_run_env sample_log interrupted_world)))
        sample_log) = Some 3"
  by (simp_all add: first_run(2) run_eval entries_three_blocks build_stripped_block
        load_checkpoint three_blocks_def [symmetric] backfill_row_def)

lemma flush_batch_same:
  "same_but_checkpoint a b \<Longrightarrow>
   fst (flush_batch e f batch ins a) = fst (flush_batch e f batch ins b)
   \<and> same_but_checkpoint (snd (flush_batch e f batch ins a)) (snd (flush_batch e f batch ins b))"
  by (auto simp: same_but_checkpoint_def flush_batch_def pop_db_fault_def emit_def
           split: list.splits prod.splits sum.splits)

lemma tracker_save_same:
  "same_but_checkpoint a b \<Longrightarrow> same_but_checkpoint (tracker_save f p a) (tracker_save f p b)"
  by (auto simp: same_but_checkpoint_def tracker_save_def pop_fs_fault_def emit_def split: list.splits)

lemma process_entries_same:
  "same_but_checkpoint a b \<Longrightarrow>
   fst (process_entries e f entries n batch processed inserted a)
     = fst (process_entries e f entries n batch processed inserted b)
   \<and> same_but_checkpoint (snd (process_entries e f entries n batch processed inserted a))
                         (snd (process_entries e f entries n batch processed inserted b))"
proof (induction entries arbitrary: n batch processed inserted a b)
  case Nil
  then show ?case by simp
next
  case (Cons l ls)
  show ?case
  proof (cases "build_record e (parse_entry l)")
    case None
    with Cons.IH [OF Cons.prems] show ?thesis by simp
  next
    case (Some rec)
    show ?thesis
    proof (cases "length (batch @ [rec]) \<ge> BATCH_SIZE e")
      case False
      with Some Cons.IH [OF Cons.prems] show ?thesis by (simp add: Let_def)
    next
      case True
      obtain ra a1 where fa: "flush_batch e f (batch @ [rec]) inserted a = (ra, a1)"
        by (cases "flush_batch e f (batch @ [rec]) inserted a")
      obtain rb b1 where fb: "flush_batch e f (batch @ [rec]) inserted b = (rb, b1)"
        by (cases "flush_batch e f (batch @ [rec]) inserted b")
      from flush_batch_same [OF Cons.prems, of e f "batch @ [rec]" inserted] fa fb
      have eq: "ra = rb" and rel: "same_but_checkpoint a1 b1" by simp_all
      show ?thesis
      proof (cases ra)
        case (Inl err)
        with eq have "rb = Inl err" by simp
        with Inl Some True fa fb rel show ?thesis by (simp add: Let_def)
      next
        case (Inr ins)
        with eq have rb: "rb = Inr ins" by simp
        from tracker_save_same [OF rel]
        have "same_but_checkpoint (tracker_save f (int n + 1) a1) (tracker_save f (int n + 1) b1)" .
        from Cons.IH [OF this] Inr rb Some True fa fb show ?thesis by (simp add: Let_def)
      qed
    qed
  qed
qed

lemma audit_insert_same:
  "same_but_checkpoint a b \<Longrightarrow>
   fst (audit_insert e f p i a) = fst (audit_insert e f p i b)
   \<and> same_but_checkpoint (snd (audit_insert e f p i a)) (snd (audit_insert e f p i b))"
  by (auto simp: same_but_checkpoint_def audit_insert_def pop_db_fault_def emit_def Let_def
           split: list.splits option.splits)

lemma unlink_log_same:
  "same_but_checkpoint a b \<Longrightarrow> same_but_checkpoint (unlink_log f a) (unlink_log f b)"
  by (auto simp: same_but_checkpoint_def unlink_log_def pop_fs_fault_def emit_def split: list.splits)

lemma emit_same:
  "same_but_checkpoint a b \<Longrightarrow> same_but_checkpoint (emit x a) (emit y b)"
  by (simp add: same_but_checkpoint_def emit_def)

lemma process_log_file_ignores_checkpoint:
  assumes rel: "same_but_checkpoint a b"
  shows "fst (process_log_file e f a) = fst (process_log_file e f b)
     \<and> same_but_checkpoint (snd (process_log_file e f a)) (snd (process_log_file e f b))"
proof -
  let ?a0 = "emit (Started f (case load (w_progress a) f of None \<Rightarrow> 0 | Some p \<Rightarrow> p)) a"
  let ?b0 = "emit (Started f (case load (w_progress b) f of None \<Rightarrow> 0 | Some p \<Rightarrow> p)) b"
  have r0: "same_but_checkpoint ?a0 ?b0" using rel by (rule emit_same)
  then have d0: "w_disk ?a0 f = w_disk ?b0 f" by (simp add: same_but_checkpoint_def)
  show ?thesis
  proof (cases "w_disk ?b0 f")
    case None
    with d0 r0 show ?thesis by (simp add: process_log_file_def Let_def)
  next
    case (Some lines)
    with d0 have da: "w_disk ?a0 f = Some lines" by simp
    obtain pa a1 where pa: "process_entries e f (read_log_entries lines) 0 [] 0 0 ?a0 = (pa, a1)"
      by (cases "process_entries e f (read_log_entries lines) 0 [] 0 0 ?a0")
    obtain pb b1 where pb: "process_entries e f (read_log_entries lines) 0 [] 0 0 ?b0 = (pb, b1)"
      by (cases "process_entries e f (read_log_entries lines) 0 [] 0 0 ?b0")
    from process_entries_same [OF r0, of e f "read_log_entries lines" 0 "[]" 0 0] pa pb
    have pe: "pa = pb" and r1: "same_but_checkpoint a1 b1" by simp_all
    show ?thesis
    proof (cases pb)
      case (Inl err)
      with pe pa pb r1 Some da show ?thesis
        by (simp add: process_log_file_def Let_def)
    next
      case (Inr res)
      obtain batch processed inserted where res: "res = (batch, processed, inserted)" by (cases res)
      let ?fa = "if batch \<noteq> [] then flush_batch e f batch inserted a1 else (Inr inserted, a1)"
      let ?fb = "if batch \<noteq> [] then flush_batch e f batch inserted b1 else (Inr inserted, b1)"
      obtain fa a2 where fa: "?fa = (fa, a2)" by (cases ?fa)
      obtain fb b2 where fb: "?fb = (fb, b2)" by (cases ?fb)
      have "fst ?fa = fst ?fb \<and> same_but_checkpoint (snd ?fa) (snd ?fb)"
        using flush_batch_same [OF r1] r1 by simp
      with fa fb have fe: "fa = fb" and r2: "same_but_checkpoint a2 b2" by simp_all
      show ?thesis
      proof (cases fb)
        case (Inl err)
        with fe fa fb r2 pe pa pb Inr res Some da show ?thesis
          by (simp add: process_log_file_def Let_def)
      next
        case ins: (Inr ins)
        obtain ua a3 where ua: "audit_insert e f processed ins a2 = (ua, a3)"
          by (cases "audit_insert e f processed ins a2")
        obtain ub b3 where ub: "audit_insert e f processed ins b2 = (ub, b3)"
          by (cases "audit_insert e f processed ins b2")
        from audit_insert_same [OF r2, of e f processed ins] ua ub
        have ue: "ua = ub" and r3: "same_but_checkpoint a3 b3" by simp_all
        show ?thesis
        proof (cases ub)
          case (Inl err)
          with ue ua ub r3 ins fe fa fb pe pa pb Inr res Some da show ?thesis
            by (simp add: process_log_file_def Let_def)
        next
          case ok: (Inr u)
          from unlink_log_same [OF r3] ok ue ua ub ins fe fa fb pe pa pb Inr res Some da
          show ?thesis
            by (simp add: process_log_file_def Let_def)
        qed
      qed
    qed
  qed
qed

text \<open>
  C1 on an interrupted run: the file of three blocks is processed with batches of two; the
  first batch is flushed and the checkpoint 2 is saved, then the commit of the second batch
  fails. The restart reads the checkpoint (resume position 2) and processes the file from
  its first entry: it returns three processed records, flushes the first batch again, which
  rewrites the latest-state rows of its subscribers with the time of the restart, saves the
  checkpoint again and audits three records.
\<close>

theorem restart_reprocesses_whole_file:
  "fst (process_log_file first_run_env sample_log interrupted_start) = Inl DatabaseError
   \<and> w_trace interrupted_world
       = [Started sample_log 0, BatchCommitted sample_log 2, CheckpointSaved sample_log 2]
   \<and> load (w_progress interrupted_world) sample_log = Some 2
   \<and> fst (process_log_file second_run_env sample_log interrupted_world) = Inr (3, 3)
   \<and> w_trace (snd (process_log_file second_run_env sample_log interrupted_world))
       = w_trace interrupted_world
         @ [Started sample_log 2, BatchCommitted sample_log 2, CheckpointSaved sample_log 2,
            BatchCommitted sample_log 1, AuditCommitted sample_log, FileDeleted sample_log]
   \<and> map_option l_updated_at (latest_traces (w_db interrupted_world) ''5926001234'')
       = Some 1736107200
   \<and> map_option l_updated_at
        (latest_traces (w_db (snd (process_log_file second_run_env sample_log interrupted_world)))
           ''5926001234'') = Some 1736110800
   \<and> map_option a_processed
        (backfill_audit (w_db (snd (process_log_file second_run_env sample_log interrupted_world)))
           sample_log) = Some 3"
  using first_run(1) second_run
  by (simp add: first_run(2) load_checkpoint backfill_row_def)

subsection \<open>Clearing the checkpoints\<close>

lemma flush_batch_lock: "lock_held w \<Longrightarrow> lock_held (snd (flush_batch e f batch ins w))"
  by (auto simp: lock_held_def flush_batch_def pop_db_fault_def emit_def
           split: list.splits prod.splits sum.splits)

lemma tracker_save_lock: "lock_held w \<Longrightarrow> lock_held (tracker_save f p w)"
  by (auto simp: lock_held_def tracker_save_def pop_fs_fault_def emit_def)

lemma process_entries_lock:
  "lock_held w \<Longrightarrow> lock_held (snd (process_entries e f entries n batch processed inserted w))"
proof (induction entries arbitrary: n batch processed inserted w)
  case Nil
  then show ?case by simp
next
  case (Cons l ls)
  show ?case
  proof (cases "build_record e (parse_entry l)")
    case None
    with Cons.IH [OF Cons.prems] show ?thesis by simp
  next
    case (Some rec)
    show ?thesis
    proof (cases "length (batch @ [rec]) \<ge> BATCH_SIZE e")
      case False
      with Some Cons.IH [OF Cons.prems] show ?thesis by (simp add: Let_def)
    next
      case True
      obtain r w1 where fl: "flush_batch e f (batch @ [rec]) inserted w = (r, w1)"
        by (cases "flush_batch e f (batch @ [rec]) inserted w")
      from flush_batch_lock [OF Cons.prems, of e f "batch @ [rec]" inserted] fl
      have l1: "lock_held w1" by simp
      show ?thesis
      proof (cases r)
        case (Inl err)
        with Some True fl l1 show ?thesis by (simp add: Let_def)
      next
        case (Inr ins)
        from Cons.IH [OF tracker_save_lock [OF l1]] Inr Some True fl
        show ?thesis by (simp add: Let_def)
      qed
    qed
  qed
qed

lemma audit_insert_lock: "lock_held w \<Longrightarrow> lock_held (snd (audit_insert e f p i w))"
  by (auto simp: lock_held_def audit_insert_def pop_db_fault_def emit_def Let_def
           split: list.splits option.splits)

lemma unlink_log_lock: "lock_held w \<Longrightarrow> lock_held (unlink_log f w)"
  by (auto simp: lock_held_def unlink_log_def pop_fs_fault_def emit_def)

lemma emit_lock: "lock_held w \<Longrightarrow> lock_held (emit ev w)"
  by (simp add: lock_held_def emit_def)

lemma process_log_file_lock:
  assumes "lock_held w"
  shows "lock_held (snd (process_log_file e f w))"
proof -
  let ?w0 = "emit (Started f (case load (w_progress w) f of None \<Rightarrow> 0 | Some p \<Rightarrow> p)) w"
  have l0: "lock_held ?w0" using assms by (rule emit_lock)
  show ?thesis
  proof (cases "w_disk ?w0 f")
    case None
    with l0 show ?thesis by (simp add: process_log_file_def Let_def)
  next
    case (Some lines)
    obtain pr w1 where pe: "process_entries e f (read_log_entries lines) 0 [] 0 0 ?w0 = (pr, w1)"
      by (cases "process_entries e f (read_log_entries lines) 0 [] 0 0 ?w0")
    from process_entries_lock [OF l0, of e f "read_log_entries lines" 0 "[]" 0 0] pe
    have l1: "lock_held w1" by simp
    show ?thesis
    proof (cases pr)
      case (Inl err)
      with pe l1 Some show ?thesis by (simp add: process_log_file_def Let_def)
    next
      case (Inr res)
      obtain batch processed inserted where res: "res = (batch, processed, inserted)" by (cases res)
      let ?fl = "if batch \<noteq> [] then flush_batch e f batch inserted w1 else (Inr inserted, w1)"
      obtain fr w2 where fl: "?fl = (fr, w2)" by (cases ?fl)
      have "lock_held (snd ?fl)" using flush_batch_lock [OF l1] l1 by simp
      with fl have l2: "lock_held w2" by simp
      show ?thesis
      proof (cases fr)
        case (Inl err)
        with fl l2 pe Inr res Some show ?thesis by (simp add: process_log_file_def Let_def)
      next
        case ins: (Inr ins)
        obtain ar w3 where au: "audit_insert e f processed ins w2 = (ar, w3)"
          by (cases "audit_insert e f processed ins w2")
        from audit_insert_lock [OF l2, of e f processed ins] au have l3: "lock_held w3" by simp
        show ?thesis
        proof (cases ar)
          case (Inl err)
          with au l3 ins fl pe Inr res Some show ?thesis by (simp add: process_log_file_def Let_def)
        next
          case ok: (Inr u)
          from unlink_log_lock [OF l3] ok au ins fl pe Inr res Some show ?thesis
            by (simp add: process_log_file_def Let_def)
        qed
      qed
    qed
  qed
qed

lemma process_files_lock:
  "lock_held w \<Longrightarrow> lock_held (snd (process_files e fs tp ti w))"
proof (induction fs arbitrary: tp ti w)
  case Nil
  then show ?case by simp
next
  case (Cons f fs)
  obtain r w1 where run: "process_log_file e f w = (r, w1)" by (cases "process_log_file e f w")
  from process_log_file_lock [OF Cons.prems, of e f] run have "lock_held w1" by simp
  from Cons.IH [OF this] run show ?case by (cases r) (auto split: prod.splits)
qed

lemma process_all_lock:
  "lock_held w \<Longrightarrow> lock_held (snd (process_all e logs tp ti w))"
proof (induction logs arbitrary: tp ti w)
  case Nil
  then show ?case by simp
next
  case (Cons d ds)
  obtain ip files where d: "d = (ip, files)" by (cases d)
  obtain tt w1 where run: "process_files e files tp ti w = (tt, w1)"
    by (cases "process_files e files tp ti w")
  from process_files_lock [OF Cons.prems, of e files tp ti] run have "lock_held w1" by simp
  from Cons.IH [OF this] run d show ?case by (auto split: prod.splits)
qed

lemma perform_maintenance_lock: "lock_held w \<Longrightarrow> lock_held (perform_maintenance e w)"
  by (auto simp: lock_held_def perform_maintenance_def pop_db_fault_def Let_def split: list.splits)

lemma cleanup_clears: "lock_held w \<Longrightarrow> w_progress (cleanup w) = None"
  by (simp add: lock_held_def cleanup_def pop_fs_fault_def emit_def clear_def Let_def)

lemma backfill_always_clears:
  assumes "\<not> w_lock w" and "w_fs_faults w = []"
  shows "w_progress (backfill e all_logs w) = None"
proof -
  let ?w2 = "w\<lparr>w_lock := True\<rparr>"
  have l2: "lock_held ?w2" using assms by (simp add: lock_held_def)
  obtain fault w3 where p3: "pop_db_fault ?w2 = (fault, w3)" by (cases "pop_db_fault ?w2")
  then have l3: "lock_held w3" using l2
    by (auto simp: pop_db_fault_def lock_held_def split: list.splits)
  have p4: "pop_fs_fault w3 = (False, w3)" using l3 by (simp add: pop_fs_fault_def lock_held_def)
  obtain tt w5 where run: "process_all e all_logs 0 0 w3 = (tt, w5)"
    by (cases "process_all e all_logs 0 0 w3")
  from process_all_lock [OF l3, of e all_logs 0 0] run have "lock_held w5" by simp
  then have "lock_held (perform_maintenance e w5)" by (rule perform_maintenance_lock)
  then have c5: "w_progress (cleanup (perform_maintenance e w5)) = None" by (rule cleanup_clears)
  have c3: "w_progress (cleanup w3) = None" using l3 by (rule cleanup_clears)
  have "pop_fs_fault w = (False, w)" using assms by (simp add: pop_fs_fault_def)
  with assms p3 p4 run c3 c5 show ?thesis
    by (simp add: backfill_def Let_def)
qed


text \<open>
  C6 on a run in which a file fails: the file of three blocks is processed with batches of
  two, the first batch is flushed and its checkpoint is saved, and the commit of the second
  batch fails. \<open>process_log_file\<close> raises, \<open>backfill\<close> logs the failure, and its
  \<open>finally\<close> block removes the lock and clears the checkpoints all the same: the file
  is still on disk, it has no audit row, and the checkpoint that was saved is gone.
\<close>

theorem failed_backfill_clears_checkpoints:
  "w_trace (backfill first_run_env sample_logs failing_start)
     = [Started sample_log 0, BatchCommitted sample_log 2, CheckpointSaved sample_log 2,
        LockRemoved, CheckpointsCleared]
   \<and> w_progress (backfill first_run_env sample_logs failing_start) = None
   \<and> w_disk (backfill first_run_env sample_logs failing_start) sample_log = Some three_blocks
   \<and> backfill_audit (w_db (backfill first_run_env sample_logs failing_start)) sample_log = None"
  by (simp add: failing_start_def sample_logs_def backfill_def cleanup_def
        perform_maintenance_def clear_def run_eval sample_world_def entries_three_blocks
        build_stripped_block load_def empty_db_def save_def py_str_int_def nat_digits.simps)

subsection \<open>Tail mode\<close>

lemma handler_loop_append:
  "handler_loop ft (xs @ ys) buf recs =
     (case handler_loop ft xs buf recs of (r1, b1) \<Rightarrow> handler_loop ft ys b1 r1)"
  by (induction xs arbitrary: buf recs) auto

lemma lines_from_append:
  "lines_from (a @ [CHR 0x0A] @ b) cur = lines_from (a @ [CHR 0x0A]) cur @ lines_from b []"
  by (induction a arbitrary: cur) auto

lemma py_lines_append:
  "py_lines ((a @ [CHR 0x0A]) @ b) = py_lines (a @ [CHR 0x0A]) @ py_lines b"
  using lines_from_append [of a b "[]"] by (simp add: py_lines_def)

lemma decode_eci_sample:
  "decode_eci ''0x823708401b59370840000fc70e''
     = Some \<lparr>eci_enodeb_id = 4039, eci_cell_id = 14, eci = 1033998\<rparr>"
  by code_simp

lemmas tail_eval = py_lines_def starts_record_def py_isspace_def py_strip_def attribute_line_def
  quoted_def Let_def

lemma lines_first_slice:
  "py_lines first_slice =
     [''Sun Jan  5 14:00:00 2025\<newline>'', attribute_line ''Calling-Station-Id'' (quoted ''5926001234'')]"
  by (simp add: first_slice_def tail_eval)

lemma lines_second_slice:
  "py_lines second_slice =
     [attribute_line ''3GPP-User-Location-Info'' ''0x823708401b59370840000fc70e'',
      ''\<newline>'', ''Sun Jan  5 14:00:05 2025\<newline>'']"
  by (simp add: second_slice_def tail_eval)

lemma starts_sample [simp]:
  "starts_record ''Sun Jan  5 14:00:00 2025\<newline>''"
  "starts_record ''Sun Jan  5 14:00:05 2025\<newline>''"
  "\<not> starts_record (attribute_line k v)"
  "\<not> starts_record ''\<newline>''"
  by (simp_all add: tail_eval)

lemma parse_whole_record:
  "parse_radius_record ft
     [attribute_line ''Calling-Station-Id'' (quoted ''5926001234''),
      attribute_line ''3GPP-User-Location-Info'' ''0x823708401b59370840000fc70e'',
      ''\<newline>''] = Some tail_record"
  by (simp add: parse_radius_record_def parse_record_line_def partition_eq_def strip_quotes_def
        py_startswith_def decode_eci_sample has_msisdn_and_enodeb_def tail_record_def
        empty_record_def py_strip_def py_isspace_def attribute_line_def quoted_def Let_def)

lemma parse_second_half:
  "parse_radius_record ft
     [attribute_line ''3GPP-User-Location-Info'' ''0x823708401b59370840000fc70e'',
      ''\<newline>''] = None"
  by (simp add: parse_radius_record_def parse_record_line_def partition_eq_def strip_quotes_def
        py_startswith_def decode_eci_sample has_msisdn_and_enodeb_def
        empty_record_def py_strip_def py_isspace_def attribute_line_def quoted_def Let_def)

lemma first_slice_ends:
  "first_slice = butlast first_slice @ [CHR 0x0A]"
  by (simp add: first_slice_def attribute_line_def quoted_def)

lemma lines_both_slices:
  "py_lines (first_slice @ second_slice) = py_lines first_slice @ py_lines second_slice"
  using py_lines_append [of "butlast first_slice" second_slice] first_slice_ends by simp

lemma handler_loop_records:
  "handler_loop ft ls b rs = (rs @ fst (handler_loop ft ls b []), snd (handler_loop ft ls b []))"
proof (induction ls arbitrary: b rs)
  case Nil
  then show ?case by simp
next
  case (Cons l ls)
  show ?case
  proof (cases "starts_record l")
    case False
    with Cons.IH [of "b @ [l]" rs] show ?thesis by simp
  next
    case True
    define x where "x = (if b \<noteq> [] then (case parse_radius_record ft b of
                                           None \<Rightarrow> [] | Some parsed \<Rightarrow> [parsed]) else [])"
    have s1: "handler_loop ft (l # ls) b rs = handler_loop ft ls [] (rs @ x)"
      using True by (simp add: x_def split: option.splits)
    have s2: "handler_loop ft (l # ls) b [] = handler_loop ft ls [] x"
      using True by (simp add: x_def split: option.splits)
    from Cons.IH [of "[]" "rs @ x"] Cons.IH [of "[]" x] s1 s2 show ?thesis by simp
  qed
qed

text \<open>
  \<open>process_new_lines\<close> keeps the open block in \<open>self.buffer\<close>: two polls, the first
  of which ends at the end of a line, yield the records of one poll over the whole content
  and leave the same buffer.
\<close>

lemma handler_two_polls:
  assumes "c1 = a @ [CHR 0x0A]"
    and "process_new_lines ft f1 f2 now empty_handler path (Some c1) = (r1, st1)"
    and "process_new_lines ft g1 g2 now' st1 path (Some (c1 @ c2)) = (r2, st2)"
    and "process_new_lines ft h1 h2 now'' empty_handler path (Some (c1 @ c2)) = (r, st)"
  shows "r1 @ r2 = r \<and> hs_buffer st2 path = hs_buffer st path"
proof -
  obtain q1 b1 where l1: "handler_loop ft (py_lines c1) [] [] = (q1, b1)"
    by (cases "handler_loop ft (py_lines c1) [] []")
  obtain q2 b2 where l2: "handler_loop ft (py_lines c2) b1 [] = (q2, b2)"
    by (cases "handler_loop ft (py_lines c2) b1 []")
  from assms(2) l1 have r1: "r1 = q1" and p1: "hs_file_positions st1 path = Some (length c1)"
    and bf1: "hs_buffer st1 path = Some b1"
    by (auto simp: process_new_lines_def empty_handler_def Let_def)
  from assms(3) p1 bf1 l2 have r2: "r2 = q2" and bf2: "hs_buffer st2 path = Some b2"
    by (auto simp: process_new_lines_def Let_def)
  have "py_lines (c1 @ c2) = py_lines c1 @ py_lines c2"
    using py_lines_append [of a c2] assms(1) by simp
  then have "handler_loop ft (py_lines (c1 @ c2)) [] [] = handler_loop ft (py_lines c2) b1 q1"
    using l1 by (simp add: handler_loop_append)
  also have "\<dots> = (q1 @ q2, b2)"
    using handler_loop_records [of ft "py_lines c2" b1 q1] l2 by simp
  finally have "handler_loop ft (py_lines (c1 @ c2)) [] [] = (q1 @ q2, b2)" .
  with assms(4) have "r = q1 @ q2" "hs_buffer st path = Some b2"
    by (auto simp: process_new_lines_def empty_handler_def Let_def)
  with r1 r2 bf2 show ?thesis by simp
qed

lemma slice_lengths: "0 < length first_slice" "0 < length second_slice"
  by (simp_all add: first_slice_def second_slice_def)

lemma watcher_loop_first:
  "watcher_loop ft (py_lines first_slice) [] []
     = ([], [attribute_line ''Calling-Station-Id'' (quoted ''5926001234'')])"
  by (simp add: lines_first_slice)

lemma watcher_loop_second:
  "watcher_loop ft (py_lines second_slice) [] [] = ([], [])"
  by (simp add: lines_second_slice parse_second_half)

lemma watcher_loop_both:
  "watcher_loop ft (py_lines (first_slice @ second_slice)) [] [] = ([tail_record], [])"
  by (simp add: lines_both_slices lines_first_slice lines_second_slice parse_whole_record
        has_msisdn_and_enodeb_def tail_record_def empty_record_def)

lemma handler_loop_first:
  "handler_loop ft (py_lines first_slice) [] []
     = ([], [attribute_line ''Calling-Station-Id'' (quoted ''5926001234'')])"
  by (simp add: lines_first_slice)

lemma handler_loop_second:
  "handler_loop ft (py_lines second_slice)
     [attribute_line ''Calling-Station-Id'' (quoted ''5926001234'')] [] = ([tail_record], [])"
  by (simp add: lines_second_slice parse_whole_record)

lemma handler_first_poll:
  "process_new_lines ft PgOk PgOk now empty_handler watched_file (Some first_slice)
     = ([], empty_handler\<lparr>hs_file_positions := [watched_file \<mapsto> length first_slice],
                           hs_buffer := [watched_file \<mapsto>
                              [attribute_line ''Calling-Station-Id'' (quoted ''5926001234'')]]\<rparr>)"
  by (simp add: process_new_lines_def empty_handler_def handler_loop_first)

text \<open>
  C5 on a poll that ends inside a block: the first poll reads the header of a record and its
  subscriber line, the second the location line, the blank line and the next header.
  \<open>RadiusWatcher.process_file\<close> returns no record in the first poll and drops the
  subscriber line that its local \<open>current_record\<close> holds; in the second poll it parses
  the rest of the block alone and returns no record either, although one poll over the whole
  content returns the record. \<open>process_new_lines\<close> of \<open>radius_watcher_old.py\<close> keeps
  the line in its buffer and returns the record in the second poll.
\<close>

theorem watcher_loses_split_record:
  "watcher_process_file ft Map.empty watched_file (Some first_slice)
     = ([], [watched_file \<mapsto> length first_slice])
   \<and> watcher_loop ft (py_lines first_slice) [] []
     = ([], [attribute_line ''Calling-Station-Id'' (quoted ''5926001234'')])
   \<and> fst (watcher_process_file ft [watched_file \<mapsto> length first_slice] watched_file
            (Some (first_slice @ second_slice))) = []
   \<and> fst (watcher_process_file ft Map.empty watched_file (Some (first_slice @ second_slice)))
     = [tail_record]
   \<and> fst (process_new_lines ft PgOk PgOk now empty_handler watched_file (Some first_slice)) = []
   \<and> hs_buffer (snd (process_new_lines ft PgOk PgOk now empty_handler watched_file (Some first_slice)))
        watched_file = Some [attribute_line ''Calling-Station-Id'' (quoted ''5926001234'')]
   \<and> fst (process_new_lines ft PgOk PgOk now
            (snd (process_new_lines ft PgOk PgOk now empty_handler watched_file (Some first_slice)))
            watched_file (Some (first_slice @ second_slice))) = [tail_record]"
proof -
  have a: "watcher_process_file ft Map.empty watched_file (Some first_slice)
     = ([], [watched_file \<mapsto> length first_slice])"
    using slice_lengths by (simp add: watcher_process_file_def watcher_loop_first)
  have b: "fst (watcher_process_file ft [watched_file \<mapsto> length first_slice] watched_file
            (Some (first_slice @ second_slice))) = []"
    using slice_lengths by (simp add: watcher_process_file_def watcher_loop_second)
  have c: "fst (watcher_process_file ft Map.empty watched_file (Some (first_slice @ second_slice)))
     = [tail_record]"
    using slice_lengths by (simp add: watcher_process_file_def watcher_loop_both)
  have d: "fst (process_new_lines ft PgOk PgOk now
            (snd (process_new_lines ft PgOk PgOk now empty_handler watched_file (Some first_slice)))
            watched_file (Some (first_slice @ second_slice))) = [tail_record]"
    by (simp add: handler_first_poll)
       (simp add: process_new_lines_def empty_handler_def handler_loop_second)
  from a b c d watcher_loop_first [of ft] handler_first_poll [of ft now] show ?thesis
    by simp
qed

end
